theory Spec2Isabelle
  imports Complex_Main "HOL-Library.Word" "HOL-Library.Log_Nat"
begin

section \<open>Data model\<close>

text \<open>
  Shallow embedding of \<^verbatim>\<open>packages/shared/src/pdf-operations.ts\<close> and of the
  \<^verbatim>\<open>pdf:compress\<close> handler of \<^verbatim>\<open>packages/electron-app/src/main/index.ts\<close>.

  A byte buffer (\<^verbatim>\<open>Uint8Array\<close>) is a list of 8-bit words. A JavaScript number used
  as a page index is an \<open>int\<close>; a number used as a coordinate is a \<open>real\<close>; the
  reduction percentage is computed in IEEE doubles, with the rounding of every
  operation written out. A value thrown by a callee is either an \<^verbatim>\<open>Error\<close>
  carrying its message or some other value; a function that may throw returns
  \<open>js_thrown + 'a\<close>, with \<open>Inl\<close> for the exception.
\<close>

type_synonym bytes = "8 word list"

datatype js_thrown = JsError string | JsOther

text \<open>\<^verbatim>\<open>error instanceof Error ? error.message : fallback\<close>\<close>

fun error_message :: "js_thrown \<Rightarrow> string \<Rightarrow> string" where
  "error_message (JsError m) fallback = m"
| "error_message JsOther fallback = fallback"

datatype rgb_color = RGB real real real

text \<open>
  The drawing calls a page receives, with the options the caller passes:
  \<^verbatim>\<open>drawRectangle({x, y, width, height, color, borderColor, borderWidth, opacity})\<close>,
  \<^verbatim>\<open>drawLine({start, end, thickness, color, opacity})\<close> and
  \<^verbatim>\<open>drawText(text, {x, y, size, color, opacity})\<close>.
\<close>

datatype draw_op =
    DrawRectangle real real real real "rgb_color option" "rgb_color option" "real option" real
  | DrawLine "real \<times> real" "real \<times> real" real rgb_color real
  | DrawText string real real real rgb_color real

record page =
  width :: real
  height :: real
  rotation :: int
  content :: "draw_op list"

record 'f pdf_doc =
  pages :: "page list"
  title :: "string option"
  author :: "string option"
  subject :: "string option"
  doc_keywords :: "string list option"
  producer :: "string option"
  creator :: "string option"
  form :: "'f option"

datatype annotation_type =
  Highlight | Underline | Strikeout | Freeform | Text | Rectangle | Arrow

record rect =
  rect_x :: real
  rect_y :: real
  rect_width :: real
  rect_height :: real

record annotation =
  ann_id :: string
  ann_type :: annotation_type
  pageIndex :: int
  ann_rect :: rect
  color :: string
  opacity :: real
  createdAt :: int
  updatedAt :: int
  ann_content :: "string option"
  points :: "(real \<times> real) list option"

record merge_source =
  ms_id :: string
  fileName :: string
  ms_bytes :: bytes
  ms_pageCount :: nat
  selectedPages :: "int list"

record merge_result =
  mr_success :: bool
  mr_bytes :: "bytes option"
  mr_error :: "string option"

text \<open>
  \<open>reductionPercent\<close> is a JavaScript number computed by a division; \<open>None\<close> stands
  for \<^verbatim>\<open>NaN\<close>, the value of \<^verbatim>\<open>Math.max(0, Math.round((1 - 0 / 0) * 100))\<close>.
\<close>

record compression_result =
  cr_success :: bool
  cr_bytes :: "bytes option"
  originalSize :: nat
  compressedSize :: nat
  reductionPercent :: "int option"
  cr_error :: "string option"

section \<open>The document library\<close>

text \<open>
  The options of \<^verbatim>\<open>PDFDocument.load\<close> and \<^verbatim>\<open>PDFDocument.save\<close> that the
  repository passes; an option left out of the call is \<open>None\<close>. Parsing and
  serialising are the library's: every operation below takes the loader
  \<open>ld\<close> and the serialiser \<open>sv\<close> as parameters.
\<close>

record load_options =
  ignoreEncryption :: bool
  updateMetadata :: "bool option"

record save_options =
  useObjectStreams :: "bool option"
  addDefaultPage :: "bool option"
  objectsPerTick :: "nat option"

type_synonym 'f loader = "load_options \<Rightarrow> bytes \<Rightarrow> js_thrown + 'f pdf_doc"
type_synonym 'f saver = "save_options \<Rightarrow> 'f pdf_doc \<Rightarrow> js_thrown + bytes"

definition ignore_encryption :: load_options where
  "ignore_encryption = \<lparr>ignoreEncryption = True, updateMetadata = None\<rparr>"

definition save_defaults :: save_options where
  "save_defaults = \<lparr>useObjectStreams = None, addDefaultPage = None, objectsPerTick = None\<rparr>"

text \<open>
  Modelled from the spec: \<^verbatim>\<open>PDFDocument.create()\<close> of the document library, which is
  not part of the repository. The spec (4.1) has \<^verbatim>\<open>create() -> empty Document\<close>.
\<close>

definition create :: "'f pdf_doc" where
  "create = \<lparr>pages = [], title = None, author = None, subject = None,
     doc_keywords = None, producer = None, creator = None, form = None\<rparr>"

definition getPageCount :: "'f pdf_doc \<Rightarrow> nat" where
  "getPageCount d = length (pages d)"

text \<open>
  Modelled from the spec: \<^verbatim>\<open>addPage\<close> of the document library appends the page to
  the destination (spec 4.2: "copy those pages in that order, append to destination").
\<close>

definition addPage :: "'f pdf_doc \<Rightarrow> page \<Rightarrow> 'f pdf_doc" where
  "addPage d p = d\<lparr>pages := pages d @ [p]\<rparr>"

text \<open>
  Reading a JavaScript array at a number: \<^verbatim>\<open>pages[i]\<close> is \<^verbatim>\<open>undefined\<close> (here
  \<open>None\<close>) unless \<open>i\<close> is an index of the array.
\<close>

definition js_index :: "'a list \<Rightarrow> int \<Rightarrow> 'a option" where
  "js_index xs i = (if 0 \<le> i \<and> i < int (length xs) then Some (xs ! nat i) else None)"

text \<open>
  Modelled from the spec: \<^verbatim>\<open>copyPages(src, indices)\<close> of the document library.
  The spec (3, 4.2) says that the pages are copied in the order of the selection,
  that a copy is decoupled from its source, and that an entry outside
  \<open>[0, pageCount)\<close> makes the copy fail. The text of the failure is not specified;
  \<open>copy_failure\<close> names it.
\<close>

definition copy_failure :: js_thrown where
  "copy_failure = JsError ''page index out of range''"

fun copyPages :: "'f pdf_doc \<Rightarrow> int list \<Rightarrow> js_thrown + page list" where
  "copyPages src [] = Inr []"
| "copyPages src (i # is) =
     (case js_index (pages src) i of
        None \<Rightarrow> Inl copy_failure
      | Some p \<Rightarrow>
          (case copyPages src is of
             Inl e \<Rightarrow> Inl e
           | Inr ps \<Rightarrow> Inr (p # ps)))"

subsection \<open>What the library does on load and on save\<close>

text \<open>
  The document library is not part of the repository, and the spec is silent on the two
  options modelled here; both are behaviour of the library that the operations of the
  repository rely on.

  \<^verbatim>\<open>save\<close> has the option \<^verbatim>\<open>addDefaultPage\<close>, true unless the caller passes false
  (only \<open>compressPdf\<close> does): a document without pages is given one blank page, of the
  library's default size, before it is serialised. \<open>saved_document\<close> is the document
  that the returned bytes hold, and \<open>pdf_save write\<close> is the library's \<^verbatim>\<open>save\<close> over
  a serialiser \<open>write\<close>.
\<close>

definition default_page :: page where
  "default_page = \<lparr>width = 59528 / 100, height = 84189 / 100, rotation = 0, content = []\<rparr>"

definition saved_document :: "save_options \<Rightarrow> 'f pdf_doc \<Rightarrow> 'f pdf_doc" where
  "saved_document opts d =
     (if addDefaultPage opts \<noteq> Some False \<and> getPageCount d = 0 then addPage d default_page
      else d)"

definition pdf_save :: "'f saver \<Rightarrow> 'f saver" where
  "pdf_save write opts d = write opts (saved_document opts d)"

text \<open>
  \<^verbatim>\<open>load\<close> has the option \<^verbatim>\<open>updateMetadata\<close>, true unless the caller passes false
  (\<open>compressPdf\<close> passes \<^verbatim>\<open>level < 50\<close>, with the comment "Remove metadata updates at
  higher compression"): the library then names itself as the producer of the loaded
  document, and as its creator if the document has none. It also sets the modification
  date, which the model does not hold. \<open>pdf_load parse\<close> is the library's \<^verbatim>\<open>load\<close>
  over a parser \<open>parse\<close>.
\<close>

definition pdf_lib_name :: string where
  "pdf_lib_name = ''pdf-lib (https://github.com/Hopding/pdf-lib)''"

definition updateInfoDict :: "'f pdf_doc \<Rightarrow> 'f pdf_doc" where
  "updateInfoDict d =
     d\<lparr>producer := Some pdf_lib_name,
       creator := (case creator d of None \<Rightarrow> Some pdf_lib_name | Some c \<Rightarrow> Some c)\<rparr>"

definition pdf_load :: "(bytes \<Rightarrow> js_thrown + 'f pdf_doc) \<Rightarrow> 'f loader" where
  "pdf_load parse opts bs =
     (case parse bs of
        Inl e \<Rightarrow> Inl e
      | Inr d \<Rightarrow> Inr (if updateMetadata opts = Some False then d else updateInfoDict d))"

section \<open>Page set operations\<close>

text \<open>\<^verbatim>\<open>for (const page of copiedPages) { doc.addPage(page); }\<close>\<close>

definition addPages :: "'f pdf_doc \<Rightarrow> page list \<Rightarrow> 'f pdf_doc" where
  "addPages d ps = foldl addPage d ps"

text \<open>
  \<^verbatim>\<open>source.selectedPages.length > 0 ? source.selectedPages
     : Array.from({ length: sourcePdf.getPageCount() }, (_, i) => i)\<close>
\<close>

definition pagesToCopy :: "merge_source \<Rightarrow> 'f pdf_doc \<Rightarrow> int list" where
  "pagesToCopy source sourcePdf =
     (if length (selectedPages source) > 0 then selectedPages source
      else map int [0 ..< getPageCount sourcePdf])"

text \<open>The loop of \<open>mergePdfs\<close> over the sources; an exception leaves the loop.\<close>

fun merge_loop :: "'f loader \<Rightarrow> 'f pdf_doc \<Rightarrow> merge_source list \<Rightarrow> js_thrown + 'f pdf_doc" where
  "merge_loop ld mergedPdf [] = Inr mergedPdf"
| "merge_loop ld mergedPdf (source # rest) =
     (case ld ignore_encryption (ms_bytes source) of
        Inl e \<Rightarrow> Inl e
      | Inr sourcePdf \<Rightarrow>
          (case copyPages sourcePdf (pagesToCopy source sourcePdf) of
             Inl e \<Rightarrow> Inl e
           | Inr copiedPages \<Rightarrow> merge_loop ld (addPages mergedPdf copiedPages) rest))"

text \<open>The body of the \<^verbatim>\<open>try\<close> block of \<open>mergePdfs\<close>.\<close>

definition merge_try :: "'f loader \<Rightarrow> 'f saver \<Rightarrow> merge_source list \<Rightarrow> js_thrown + bytes" where
  "merge_try ld sv sources =
     (case merge_loop ld create sources of
        Inl e \<Rightarrow> Inl e
      | Inr mergedPdf \<Rightarrow> sv save_defaults mergedPdf)"

definition mergePdfs :: "'f loader \<Rightarrow> 'f saver \<Rightarrow> merge_source list \<Rightarrow> merge_result" where
  "mergePdfs ld sv sources =
     (case merge_try ld sv sources of
        Inr mergedBytes \<Rightarrow> \<lparr>mr_success = True, mr_bytes = Some mergedBytes, mr_error = None\<rparr>
      | Inl e \<Rightarrow> \<lparr>mr_success = False, mr_bytes = None,
                 mr_error = Some (error_message e ''Unknown error during merge'')\<rparr>)"

definition reorderPages :: "'f loader \<Rightarrow> 'f saver \<Rightarrow> bytes \<Rightarrow> int list \<Rightarrow> js_thrown + bytes" where
  "reorderPages ld sv pdfBytes newOrder =
     (case ld ignore_encryption pdfBytes of
        Inl e \<Rightarrow> Inl e
      | Inr sourcePdf \<Rightarrow>
          (case copyPages sourcePdf newOrder of
             Inl e \<Rightarrow> Inl e
           | Inr copiedPages \<Rightarrow> sv save_defaults (addPages create copiedPages)))"

definition extractPages :: "'f loader \<Rightarrow> 'f saver \<Rightarrow> bytes \<Rightarrow> int list \<Rightarrow> js_thrown + bytes" where
  "extractPages ld sv pdfBytes pageIndices =
     (case ld ignore_encryption pdfBytes of
        Inl e \<Rightarrow> Inl e
      | Inr sourcePdf \<Rightarrow>
          (case copyPages sourcePdf pageIndices of
             Inl e \<Rightarrow> Inl e
           | Inr copiedPages \<Rightarrow> sv save_defaults (addPages create copiedPages)))"

text \<open>
  \<^verbatim>\<open>Array.from({ length: pageCount }, (_, i) => i)
     .filter(i => !pageIndicesToDelete.includes(i))\<close>
\<close>

fun array_includes :: "'a list \<Rightarrow> 'a \<Rightarrow> bool" where
  "array_includes [] x = False"
| "array_includes (y # ys) x = (y = x \<or> array_includes ys x)"

definition pagesToKeep :: "nat \<Rightarrow> int list \<Rightarrow> int list" where
  "pagesToKeep pageCount pageIndicesToDelete =
     filter (\<lambda>i. \<not> array_includes pageIndicesToDelete i) (map int [0 ..< pageCount])"

definition deletePages :: "'f loader \<Rightarrow> 'f saver \<Rightarrow> bytes \<Rightarrow> int list \<Rightarrow> js_thrown + bytes" where
  "deletePages ld sv pdfBytes pageIndicesToDelete =
     (case ld ignore_encryption pdfBytes of
        Inl e \<Rightarrow> Inl e
      | Inr sourcePdf \<Rightarrow>
          extractPages ld sv pdfBytes (pagesToKeep (getPageCount sourcePdf) pageIndicesToDelete))"

subsection \<open>The documents returned\<close>

text \<open>
  The document that the bytes returned by each operation hold when the saver is the
  library's: the document built by the operation, as \<^verbatim>\<open>save()\<close> with no options
  serialises it.
\<close>

definition merged_document :: "'f loader \<Rightarrow> merge_source list \<Rightarrow> js_thrown + 'f pdf_doc" where
  "merged_document ld sources =
     (case merge_loop ld create sources of
        Inl e \<Rightarrow> Inl e
      | Inr mergedPdf \<Rightarrow> Inr (saved_document save_defaults mergedPdf))"

definition extracted_document :: "'f loader \<Rightarrow> bytes \<Rightarrow> int list \<Rightarrow> js_thrown + 'f pdf_doc" where
  "extracted_document ld pdfBytes pageIndices =
     (case ld ignore_encryption pdfBytes of
        Inl e \<Rightarrow> Inl e
      | Inr sourcePdf \<Rightarrow>
          (case copyPages sourcePdf pageIndices of
             Inl e \<Rightarrow> Inl e
           | Inr copiedPages \<Rightarrow> Inr (saved_document save_defaults (addPages create copiedPages))))"

definition deleted_document :: "'f loader \<Rightarrow> bytes \<Rightarrow> int list \<Rightarrow> js_thrown + 'f pdf_doc" where
  "deleted_document ld pdfBytes pageIndicesToDelete =
     (case ld ignore_encryption pdfBytes of
        Inl e \<Rightarrow> Inl e
      | Inr sourcePdf \<Rightarrow>
          extracted_document ld pdfBytes
            (pagesToKeep (getPageCount sourcePdf) pageIndicesToDelete))"


section \<open>Annotation compositor\<close>

text \<open>
  \<open>hexToRgb\<close> lives in \<^verbatim>\<open>./utils\<close>; the operations take it as the parameter
  \<open>h\<close>. A page's \<open>content\<close> records the drawing calls made on it, in order.
\<close>

definition draw :: "page \<Rightarrow> draw_op \<Rightarrow> page" where
  "draw p d = p\<lparr>content := content p @ [d]\<rparr>"

definition drawHighlight :: "page \<Rightarrow> annotation \<Rightarrow> real \<Rightarrow> rgb_color \<Rightarrow> page" where
  "drawHighlight p a pageHeight c =
     draw p (DrawRectangle
       (rect_x (ann_rect a))
       (pageHeight - rect_y (ann_rect a) - rect_height (ann_rect a))
       (rect_width (ann_rect a))
       (rect_height (ann_rect a))
       (Some c) None None (opacity a))"

definition drawUnderline :: "page \<Rightarrow> annotation \<Rightarrow> real \<Rightarrow> rgb_color \<Rightarrow> page" where
  "drawUnderline p a pageHeight c =
     (let y = pageHeight - rect_y (ann_rect a) - rect_height (ann_rect a)
      in draw p (DrawLine
           (rect_x (ann_rect a), y)
           (rect_x (ann_rect a) + rect_width (ann_rect a), y)
           2 c (opacity a)))"

definition drawStrikeout :: "page \<Rightarrow> annotation \<Rightarrow> real \<Rightarrow> rgb_color \<Rightarrow> page" where
  "drawStrikeout p a pageHeight c =
     (let y = pageHeight - rect_y (ann_rect a) - rect_height (ann_rect a) / 2
      in draw p (DrawLine
           (rect_x (ann_rect a), y)
           (rect_x (ann_rect a) + rect_width (ann_rect a), y)
           2 c (opacity a)))"

definition drawRectangle :: "page \<Rightarrow> annotation \<Rightarrow> real \<Rightarrow> rgb_color \<Rightarrow> page" where
  "drawRectangle p a pageHeight c =
     draw p (DrawRectangle
       (rect_x (ann_rect a))
       (pageHeight - rect_y (ann_rect a) - rect_height (ann_rect a))
       (rect_width (ann_rect a))
       (rect_height (ann_rect a))
       None (Some c) (Some 2) (opacity a))"

text \<open>\<^verbatim>\<open>if (!annotation.content) return;\<close> returns for a missing and for an empty text.\<close>

definition drawTextAnnotation :: "page \<Rightarrow> annotation \<Rightarrow> real \<Rightarrow> rgb_color \<Rightarrow> page" where
  "drawTextAnnotation p a pageHeight c =
     (case ann_content a of
        None \<Rightarrow> p
      | Some txt \<Rightarrow>
          if txt = [] then p
          else draw p (DrawText txt
                 (rect_x (ann_rect a))
                 (pageHeight - rect_y (ann_rect a) - rect_height (ann_rect a))
                 12 c (opacity a)))"

text \<open>The \<^verbatim>\<open>switch\<close> of \<open>applyAnnotations\<close>; it has no case for freeform and arrow.\<close>

definition bake :: "(string \<Rightarrow> rgb_color) \<Rightarrow> page \<Rightarrow> annotation \<Rightarrow> page" where
  "bake h p a =
     (let pageHeight = height p; c = h (color a)
      in case ann_type a of
           Highlight \<Rightarrow> drawHighlight p a pageHeight c
         | Underline \<Rightarrow> drawUnderline p a pageHeight c
         | Strikeout \<Rightarrow> drawStrikeout p a pageHeight c
         | Rectangle \<Rightarrow> drawRectangle p a pageHeight c
         | Text \<Rightarrow> drawTextAnnotation p a pageHeight c
         | Freeform \<Rightarrow> p
         | Arrow \<Rightarrow> p)"

text \<open>
  One round of the loop: \<^verbatim>\<open>const page = pages[annotation.pageIndex];
  if (!page) continue;\<close> and then the drawing, which changes the page in place.
\<close>

definition annotate :: "(string \<Rightarrow> rgb_color) \<Rightarrow> page list \<Rightarrow> annotation \<Rightarrow> page list" where
  "annotate h ps a =
     (case js_index ps (pageIndex a) of
        None \<Rightarrow> ps
      | Some p \<Rightarrow> ps[nat (pageIndex a) := bake h p a])"

fun annotate_all :: "(string \<Rightarrow> rgb_color) \<Rightarrow> page list \<Rightarrow> annotation list \<Rightarrow> page list" where
  "annotate_all h ps [] = ps"
| "annotate_all h ps (a # as) = annotate_all h (annotate h ps a) as"

definition applyAnnotations ::
  "'f loader \<Rightarrow> 'f saver \<Rightarrow> (string \<Rightarrow> rgb_color) \<Rightarrow> bytes \<Rightarrow> annotation list \<Rightarrow> js_thrown + bytes" where
  "applyAnnotations ld sv h pdfBytes annotations =
     (case ld ignore_encryption pdfBytes of
        Inl e \<Rightarrow> Inl e
      | Inr pdfDoc \<Rightarrow>
          sv save_defaults (pdfDoc\<lparr>pages := annotate_all h (pages pdfDoc) annotations\<rparr>))"

text \<open>The vertical position a drawing call is given.\<close>

fun op_y :: "draw_op \<Rightarrow> real" where
  "op_y (DrawRectangle x y w h fill border bw opac) = y"
| "op_y (DrawLine start fin thickness c opac) = snd start"
| "op_y (DrawText txt x y sz c opac) = y"

section \<open>Compression\<close>

subsection \<open>IEEE doubles\<close>

text \<open>
  A JavaScript number is an IEEE 754 double, and every arithmetic operation returns the
  double nearest to the exact result, a tie going to the even significand. A double is
  modelled by the real number it stands for. \<open>binade x\<close> is the exponent \<open>e\<close> with
  \<open>2\<^sup>e \<le> x < 2\<^sup>e\<^sup>+\<^sup>1\<close> for a positive \<open>x\<close>, and \<open>to_double\<close> rounds to 53 significant
  bits. The exponent is not bounded: byte counts are below \<open>2\<^sup>5\<^sup>3\<close>, and no quotient,
  difference or product below overflows or is subnormal.
\<close>

definition round_half_even :: "real \<Rightarrow> int" where
  "round_half_even x =
     (let f = \<lfloor>x\<rfloor>; r = x - of_int f
      in if r < 1 / 2 then f else if 1 / 2 < r then f + 1 else if even f then f else f + 1)"

definition binade :: "real \<Rightarrow> int" where
  "binade x = (if 1 \<le> x then bitlen \<lfloor>x\<rfloor> - 1 else - bitlen (\<lceil>1 / x\<rceil> - 1))"

definition to_double :: "real \<Rightarrow> real" where
  "to_double x =
     (if x = 0 then 0
      else let e = binade \<bar>x\<bar> - 52
           in sgn x * of_int (round_half_even (\<bar>x\<bar> / 2 powi e)) * 2 powi e)"

text \<open>
  \<^verbatim>\<open>Math.round\<close> returns the integer nearest to its argument, a half going towards plus
  infinity; it is exact on a double.
\<close>

definition js_round :: "real \<Rightarrow> int" where
  "js_round x = \<lfloor>x + 1 / 2\<rfloor>"

text \<open>
  \<^verbatim>\<open>Math.max(0, Math.round((1 - compressedSize / originalSize) * 100))\<close>: the quotient,
  the difference and the product are each rounded to a double.
  Division by zero is written out: for an empty input and a non-empty output the
  quotient is \<^verbatim>\<open>Infinity\<close>, the rounded value \<^verbatim>\<open>-Infinity\<close> and the maximum 0; for
  an empty input and an empty output the quotient is \<^verbatim>\<open>NaN\<close> and so is the maximum.
\<close>

definition reduction :: "nat \<Rightarrow> nat \<Rightarrow> int option" where
  "reduction original compressed =
     (if original = 0 then (if compressed = 0 then None else Some 0)
      else Some (max 0 (js_round
             (to_double (to_double (1 - to_double (real compressed / real original)) * 100)))))"

definition compression_failure :: "nat \<Rightarrow> js_thrown \<Rightarrow> string \<Rightarrow> compression_result" where
  "compression_failure original e fallback =
     \<lparr>cr_success = False, cr_bytes = None, originalSize = original,
      compressedSize = original, reductionPercent = Some 0,
      cr_error = Some (error_message e fallback)\<rparr>"

definition compression_success :: "nat \<Rightarrow> bytes \<Rightarrow> compression_result" where
  "compression_success original compressedBytes =
     \<lparr>cr_success = True, cr_bytes = Some compressedBytes, originalSize = original,
      compressedSize = length compressedBytes,
      reductionPercent = reduction original (length compressedBytes),
      cr_error = None\<rparr>"

subsection \<open>In-process pass\<close>

text \<open>
  The form calls of the document library: \<open>getForm\<close> on the document's form (if any),
  the number of fields of a form, and \<open>flatten\<close>, which works on the pages and the form
  and may throw after changing them.
\<close>

record 'f form_api =
  getForm :: "'f option \<Rightarrow> js_thrown + 'f"
  getFields :: "'f \<Rightarrow> nat"
  flatten :: "'f \<Rightarrow> page list \<Rightarrow> js_thrown option \<times> page list \<times> 'f option"

definition strip_metadata :: "'f pdf_doc \<Rightarrow> 'f pdf_doc" where
  "strip_metadata d =
     d\<lparr>title := Some [], author := Some [], subject := Some [],
       doc_keywords := Some [], producer := Some [], creator := Some []\<rparr>"

text \<open>The inner \<^verbatim>\<open>try { ... } catch { }\<close> of \<open>compressPdf\<close>.\<close>

definition flatten_forms :: "'f form_api \<Rightarrow> 'f pdf_doc \<Rightarrow> 'f pdf_doc" where
  "flatten_forms api d =
     (case getForm api (form d) of
        Inl e \<Rightarrow> d
      | Inr f \<Rightarrow>
          if getFields api f > 0
          then (case flatten api f (pages d) of (thrown, ps, f') \<Rightarrow> d\<lparr>pages := ps, form := f'\<rparr>)
          else d)"

definition compress_load_options :: "nat \<Rightarrow> load_options" where
  "compress_load_options level = \<lparr>ignoreEncryption = True, updateMetadata = Some (level < 50)\<rparr>"

definition compress_save_options :: "nat \<Rightarrow> save_options" where
  "compress_save_options level =
     \<lparr>useObjectStreams = Some True, addDefaultPage = Some False,
      objectsPerTick = Some (if level \<ge> 50 then 100 else 50)\<rparr>"

text \<open>The document \<open>compressPdf\<close> hands to \<open>save\<close>.\<close>

definition compress_prepare :: "'f form_api \<Rightarrow> nat \<Rightarrow> 'f pdf_doc \<Rightarrow> 'f pdf_doc" where
  "compress_prepare api level pdfDoc =
     (let d1 = (if level \<ge> 50 then strip_metadata pdfDoc else pdfDoc)
      in if level \<ge> 75 then flatten_forms api d1 else d1)"

text \<open>
  The same document, from the bytes: \<open>compressPdf\<close> saves with
  \<^verbatim>\<open>addDefaultPage: false\<close>, so it is also the document that the returned bytes hold.
\<close>

definition compressPdf_document ::
  "'f loader \<Rightarrow> 'f form_api \<Rightarrow> bytes \<Rightarrow> nat \<Rightarrow> js_thrown + 'f pdf_doc" where
  "compressPdf_document ld api pdfBytes level =
     (case ld (compress_load_options level) pdfBytes of
        Inl e \<Rightarrow> Inl e
      | Inr pdfDoc \<Rightarrow> Inr (compress_prepare api level pdfDoc))"

definition compressPdf_try ::
  "'f loader \<Rightarrow> 'f saver \<Rightarrow> 'f form_api \<Rightarrow> bytes \<Rightarrow> nat \<Rightarrow> js_thrown + compression_result" where
  "compressPdf_try ld sv api pdfBytes level =
     (case ld (compress_load_options level) pdfBytes of
        Inl e \<Rightarrow> Inl e
      | Inr pdfDoc \<Rightarrow>
          (case sv (compress_save_options level) (compress_prepare api level pdfDoc) of
             Inl e \<Rightarrow> Inl e
           | Inr compressedBytes \<Rightarrow> Inr (compression_success (length pdfBytes) compressedBytes)))"

text \<open>\<^verbatim>\<open>try { ... } catch (error) { return ...; }\<close>: the handler's value replaces the exception.\<close>

definition try_catch :: "js_thrown + 'a \<Rightarrow> (js_thrown \<Rightarrow> js_thrown + 'a) \<Rightarrow> js_thrown + 'a" where
  "try_catch body handler = (case body of Inl e \<Rightarrow> handler e | Inr v \<Rightarrow> Inr v)"

text \<open>\<^verbatim>\<open>try { ... } finally { ... }\<close>: an exception of the cleanup replaces the outcome.\<close>

definition try_finally :: "js_thrown + 'a \<Rightarrow> js_thrown + unit \<Rightarrow> js_thrown + 'a" where
  "try_finally outcome cleanup = (case cleanup of Inl e \<Rightarrow> Inl e | Inr u \<Rightarrow> outcome)"

definition compressPdf ::
  "'f loader \<Rightarrow> 'f saver \<Rightarrow> 'f form_api \<Rightarrow> bytes \<Rightarrow> nat \<Rightarrow> js_thrown + compression_result" where
  "compressPdf ld sv api pdfBytes level =
     try_catch (compressPdf_try ld sv api pdfBytes level)
       (\<lambda>error. Inr (compression_failure (length pdfBytes) error
                        ''Unknown error during compression''))"

subsection \<open>External-process pass\<close>

text \<open>
  The file-system and process calls of the \<^verbatim>\<open>pdf:compress\<close> handler, each with the
  outcome it has when the handler makes it.
\<close>

record node_env =
  tmpdir :: string
  mkdtemp :: "string \<Rightarrow> js_thrown + string"
  writeFile :: "string \<Rightarrow> bytes \<Rightarrow> js_thrown + unit"
  execFileAsync :: "string \<Rightarrow> string list \<Rightarrow> js_thrown + unit"
  readFile :: "string \<Rightarrow> js_thrown + bytes"
  rm :: "string \<Rightarrow> js_thrown + unit"

definition path_join :: "string \<Rightarrow> string \<Rightarrow> string" where
  "path_join dir name = dir @ ''/'' @ name"

text \<open>A level outside the table reads \<^verbatim>\<open>undefined\<close>, which the template prints.\<close>

definition settingsMap :: "nat \<Rightarrow> string" where
  "settingsMap level =
     (if level = 75 then ''/screen''
      else if level = 50 then ''/ebook''
      else if level = 25 then ''/printer''
      else ''undefined'')"

definition gsArgs :: "nat \<Rightarrow> string \<Rightarrow> string \<Rightarrow> string list" where
  "gsArgs level inputPath outputPath =
     [''-sDEVICE=pdfwrite'', ''-dCompatibilityLevel=1.4'',
      ''-dPDFSETTINGS='' @ settingsMap level,
      ''-dNOPAUSE'', ''-dQUIET'', ''-dBATCH'',
      ''-sOutputFile='' @ outputPath, inputPath]"

definition gsPaths :: "string list" where
  "gsPaths = [''/opt/homebrew/bin/gs'', ''/usr/local/bin/gs'', ''/usr/bin/gs'', ''gs'']"

text \<open>The probing loop: the first candidate whose version check succeeds, else the default.\<close>

fun find_gs :: "node_env \<Rightarrow> string list \<Rightarrow> string \<Rightarrow> string" where
  "find_gs env [] gsPath = gsPath"
| "find_gs env (path # rest) gsPath =
     (case execFileAsync env path [''--version''] of
        Inr u \<Rightarrow> path
      | Inl e \<Rightarrow> find_gs env rest gsPath)"

text \<open>The \<^verbatim>\<open>try\<close> block once the scratch directory exists.\<close>

definition handler_body :: "node_env \<Rightarrow> bytes \<Rightarrow> nat \<Rightarrow> string \<Rightarrow> js_thrown + compression_result" where
  "handler_body env bs level tempDir =
     (let inputPath = path_join tempDir ''input.pdf'';
          outputPath = path_join tempDir ''output.pdf''
      in case writeFile env inputPath bs of
           Inl e \<Rightarrow> Inl e
         | Inr u \<Rightarrow>
             (let gsPath = find_gs env gsPaths ''gs''
              in case execFileAsync env gsPath (gsArgs level inputPath outputPath) of
                   Inl e \<Rightarrow> Inl e
                 | Inr u \<Rightarrow>
                     (case readFile env outputPath of
                        Inl e \<Rightarrow> Inl e
                      | Inr compressedBytes \<Rightarrow>
                          Inr (compression_success (length bs) compressedBytes))))"

text \<open>The \<^verbatim>\<open>try\<close> block, with the value of \<open>tempDir\<close> when it is left.\<close>

definition handler_try ::
  "node_env \<Rightarrow> bytes \<Rightarrow> nat \<Rightarrow> (js_thrown + compression_result) \<times> string option" where
  "handler_try env bs level =
     (case mkdtemp env (path_join (tmpdir env) ''pdf-compress-'') of
        Inl e \<Rightarrow> (Inl e, None)
      | Inr tempDir \<Rightarrow> (handler_body env bs level tempDir, Some tempDir))"

text \<open>The \<^verbatim>\<open>finally\<close> block: removal of the scratch directory, its failure swallowed.\<close>

definition handler_cleanup :: "node_env \<Rightarrow> string option \<Rightarrow> js_thrown + unit" where
  "handler_cleanup env tempDir =
     (case tempDir of
        None \<Rightarrow> Inr ()
      | Some dir \<Rightarrow> try_catch (rm env dir) (\<lambda>e. Inr ()))"

definition compress_handler :: "node_env \<Rightarrow> bytes \<Rightarrow> nat \<Rightarrow> js_thrown + compression_result" where
  "compress_handler env bs level =
     (case handler_try env bs level of
        (outcome, tempDir) \<Rightarrow>
          try_finally
            (try_catch outcome
               (\<lambda>error. Inr (compression_failure (length bs) error
                  ''Failed to compress PDF. Make sure Ghostscript is installed.'')))
            (handler_cleanup env tempDir))"

section \<open>The specification's resolved selection\<close>

text \<open>
  The specification's wording of the selection a merge source resolves to: the explicit
  \<open>selectedPages\<close>, or all pages in ascending order if that list is empty. It is
  compared with \<open>pagesToCopy\<close>, the expression of the source.
\<close>

definition resolved_selection :: "merge_source \<Rightarrow> 'f pdf_doc \<Rightarrow> int list" where
  "resolved_selection s d =
     (if selectedPages s = [] then map int [0 ..< length (pages d)] else selectedPages s)"

section \<open>Example inputs\<close>

text \<open>
  A toy codec for concrete runs: one byte per page, the byte being the page's width;
  an empty buffer does not parse.
\<close>

definition example_page :: "int \<Rightarrow> page" where
  "example_page w = \<lparr>width = of_int w, height = 792, rotation = 0, content = []\<rparr>"

definition example_doc :: "bytes \<Rightarrow> nat pdf_doc" where
  "example_doc bs = create\<lparr>pages := map (\<lambda>b. example_page (uint b)) bs\<rparr>"

definition example_load :: "nat loader" where
  "example_load opts bs =
     (if bs = [] then Inl (JsError ''No PDF header found'') else Inr (example_doc bs))"

definition example_save :: "nat saver" where
  "example_save opts d = Inr (map (\<lambda>p. word_of_int \<lfloor>width p\<rfloor>) (pages d))"

definition example_source :: "bytes \<Rightarrow> int list \<Rightarrow> merge_source" where
  "example_source bs sel =
     \<lparr>ms_id = ''id'', fileName = ''file.pdf'', ms_bytes = bs, ms_pageCount = length bs,
      selectedPages = sel\<rparr>"

definition example_hex :: "string \<Rightarrow> rgb_color" where
  "example_hex s = (if s = ''#ffff00'' then RGB 1 1 0 else RGB 0 0 0)"

definition example_annotation :: "annotation_type \<Rightarrow> int \<Rightarrow> annotation" where
  "example_annotation t i =
     \<lparr>ann_id = ''a1'', ann_type = t, pageIndex = i,
      ann_rect = \<lparr>rect_x = 10, rect_y = 20, rect_width = 100, rect_height = 30\<rparr>,
      color = ''#ffff00'', opacity = 1 / 2, createdAt = 0, updatedAt = 0,
      ann_content = None, points = None\<rparr>"

text \<open>
  An environment in which the scratch directory cannot be removed, process calls behave
  as \<open>exec\<close> says and the output file holds \<open>out\<close>.
\<close>

definition example_env :: "(string \<Rightarrow> string list \<Rightarrow> js_thrown + unit) \<Rightarrow> bytes \<Rightarrow> node_env" where
  "example_env exec out =
     \<lparr>tmpdir = ''/tmp'',
      mkdtemp = (\<lambda>prefix. Inr (prefix @ ''Ab12Cd'')),
      writeFile = (\<lambda>path bs. Inr ()),
      execFileAsync = exec,
      readFile = (\<lambda>path. Inr out),
      rm = (\<lambda>path. Inl (JsError ''EBUSY''))\<rparr>"

definition gs_absent :: "string \<Rightarrow> string list \<Rightarrow> js_thrown + unit" where
  "gs_absent path args = Inl (JsError (''spawn '' @ path @ '' ENOENT''))"

definition gs_at :: "string \<Rightarrow> string \<Rightarrow> string list \<Rightarrow> js_thrown + unit" where
  "gs_at installed path args =
     (if path = installed then Inr () else Inl (JsError (''spawn '' @ path @ '' ENOENT'')))"

text \<open>A form is its number of fields; flattening stamps every page and removes the form.\<close>

definition example_api :: "nat form_api" where
  "example_api =
     \<lparr>getForm = (\<lambda>f. case f of None \<Rightarrow> Inl (JsError ''no form'') | Some n \<Rightarrow> Inr n),
      getFields = (\<lambda>n. n),
      flatten = (\<lambda>n ps. (None,
         map (\<lambda>p. p\<lparr>content := content p @ [DrawText ''field'' 0 0 12 (RGB 0 0 0) 1]\<rparr>) ps,
         None))\<rparr>"

definition example_report :: "nat pdf_doc" where
  "example_report =
     \<lparr>pages = [example_page 200], title = Some ''Report'', author = Some ''A. Writer'',
      subject = Some ''Q3'', doc_keywords = Some [''sales''], producer = Some ''Writer 7'',
      creator = Some ''Writer'', form = Some 2\<rparr>"

definition string_bytes :: "string \<Rightarrow> bytes" where
  "string_bytes s = map (\<lambda>c. of_nat (of_char c)) s"

text \<open>A serialiser that writes nothing but the producer entry.\<close>

definition example_save_producer :: "nat saver" where
  "example_save_producer opts d =
     Inr (string_bytes (case producer d of None \<Rightarrow> [] | Some s \<Rightarrow> s))"

definition example_parse :: "bytes \<Rightarrow> js_thrown + nat pdf_doc" where
  "example_parse bs =
     (if bs = [] then Inl (JsError ''No PDF header found'') else Inr example_report)"

section \<open>Copying and appending pages\<close>

lemma addPages_pages: "addPages d ps = d\<lparr>pages := pages d @ ps\<rparr>"
  unfolding addPages_def
  by (induction ps arbitrary: d) (simp_all add: addPage_def)

lemma copyPages_in_range:
  "\<forall>i\<in>set sel. 0 \<le> i \<and> i < int (length (pages src)) \<Longrightarrow>
   copyPages src sel = Inr (map (\<lambda>i. pages src ! nat i) sel)"
  by (induction sel) (simp_all add: js_index_def)

lemma copyPages_out_of_range:
  "i \<in> set sel \<Longrightarrow> \<not> (0 \<le> i \<and> i < int (length (pages src))) \<Longrightarrow>
   copyPages src sel = Inl copy_failure"
  by (induction sel) (auto simp: js_index_def split: sum.splits option.splits)

lemma pagesToCopy_resolved: "pagesToCopy s d = resolved_selection s d"
  by (simp add: pagesToCopy_def resolved_selection_def getPageCount_def)

lemma merge_loop_valid:
  "map (\<lambda>s. ld ignore_encryption (ms_bytes s)) sources = map Inr docs \<Longrightarrow>
   \<forall>(s, d)\<in>set (zip sources docs).
      \<forall>i\<in>set (selectedPages s). 0 \<le> i \<and> i < int (length (pages d)) \<Longrightarrow>
   merge_loop ld acc sources =
     Inr (acc\<lparr>pages := pages acc @
        concat (map (\<lambda>(s, d). map (\<lambda>i. pages d ! nat i) (resolved_selection s d))
                  (zip sources docs))\<rparr>)"
proof (induction sources arbitrary: acc docs)
  case Nil
  then show ?case by simp
next
  case (Cons s rest)
  then obtain d ds where docs: "docs = d # ds" by (cases docs) auto
  from Cons.prems(1) docs have ld: "ld ignore_encryption (ms_bytes s) = Inr d"
    and rest: "map (\<lambda>s. ld ignore_encryption (ms_bytes s)) rest = map Inr ds" by simp_all
  from Cons.prems(2) docs
  have v: "\<forall>i\<in>set (selectedPages s). 0 \<le> i \<and> i < int (length (pages d))"
    and vrest: "\<forall>(s, d)\<in>set (zip rest ds).
                  \<forall>i\<in>set (selectedPages s). 0 \<le> i \<and> i < int (length (pages d))"
    by simp_all
  have "\<forall>i\<in>set (resolved_selection s d). 0 \<le> i \<and> i < int (length (pages d))"
    using v by (auto simp: resolved_selection_def)
  then have cp: "copyPages d (pagesToCopy s d) =
      Inr (map (\<lambda>i. pages d ! nat i) (resolved_selection s d))"
    by (simp add: pagesToCopy_resolved copyPages_in_range)
  show ?case
    using Cons.IH[OF rest vrest] by (simp add: ld cp docs addPages_pages)
qed

lemma merge_loop_out_of_range:
  "s \<in> set sources \<Longrightarrow> ld ignore_encryption (ms_bytes s) = Inr d \<Longrightarrow>
   i \<in> set (pagesToCopy s d) \<Longrightarrow> \<not> (0 \<le> i \<and> i < int (length (pages d))) \<Longrightarrow>
   \<exists>e. merge_loop ld acc sources = Inl e"
proof (induction sources arbitrary: acc)
  case Nil
  then show ?case by simp
next
  case (Cons a rest)
  show ?case
  proof (cases "a = s")
    case True
    have "copyPages d (pagesToCopy s d) = Inl copy_failure"
      using Cons.prems(3,4) by (rule copyPages_out_of_range)
    then show ?thesis using True Cons.prems(2) by simp
  next
    case False
    then have "s \<in> set rest" using Cons.prems(1) by simp
    then have "\<And>acc'. \<exists>e. merge_loop ld acc' rest = Inl e"
      using Cons.IH Cons.prems(2,3,4) by blast
    then show ?thesis by (simp split: sum.splits)
  qed
qed

lemma array_includes_set: "array_includes xs x \<longleftrightarrow> x \<in> set xs"
  by (induction xs) auto

lemma pagesToKeep_set:
  "set (pagesToKeep n D) = {i. 0 \<le> i \<and> i < int n \<and> i \<notin> set D}"
proof -
  have "int ` {0 ..< n} = {i. 0 \<le> i \<and> i < int n}"
    using image_int_atLeastLessThan[of 0 n] by auto
  then show ?thesis
    by (auto simp: pagesToKeep_def array_includes_set)
qed

lemma pagesToKeep_filter:
  "pagesToKeep n D = map int (filter (\<lambda>k. int k \<notin> set D) [0 ..< n])"
  by (simp add: pagesToKeep_def filter_map comp_def array_includes_set)

lemma pagesToKeep_ascending: "sorted_wrt (<) (pagesToKeep n D)"
proof -
  have "sorted_wrt (<) (map int [0 ..< n])"
    by (simp add: sorted_wrt_map)
  then show ?thesis
    unfolding pagesToKeep_def by (rule sorted_wrt_filter)
qed

lemma saved_document_defaults:
  "saved_document save_defaults d = (if pages d = [] then d\<lparr>pages := [default_page]\<rparr> else d)"
  by (simp add: saved_document_def save_defaults_def getPageCount_def addPage_def)

lemma mergePdfs_pdf_save:
  "mergePdfs ld (pdf_save wr) sources =
     (case merged_document ld sources of
        Inl e \<Rightarrow> \<lparr>mr_success = False, mr_bytes = None,
                 mr_error = Some (error_message e ''Unknown error during merge'')\<rparr>
      | Inr out \<Rightarrow>
          (case wr save_defaults out of
             Inr b \<Rightarrow> \<lparr>mr_success = True, mr_bytes = Some b, mr_error = None\<rparr>
           | Inl e \<Rightarrow> \<lparr>mr_success = False, mr_bytes = None,
                 mr_error = Some (error_message e ''Unknown error during merge'')\<rparr>))"
  by (simp add: mergePdfs_def merge_try_def merged_document_def pdf_save_def split: sum.splits)

lemma extractPages_pdf_save:
  "extractPages ld (pdf_save wr) pdfBytes sel =
     (case extracted_document ld pdfBytes sel of
        Inl e \<Rightarrow> Inl e
      | Inr out \<Rightarrow> wr save_defaults out)"
  by (simp add: extractPages_def extracted_document_def pdf_save_def split: sum.splits)

lemma deletePages_pdf_save:
  "deletePages ld (pdf_save wr) pdfBytes D =
     (case deleted_document ld pdfBytes D of
        Inl e \<Rightarrow> Inl e
      | Inr out \<Rightarrow> wr save_defaults out)"
  by (simp add: deletePages_def deleted_document_def extractPages_pdf_save split: sum.splits)


section \<open>Merging\<close>

text \<open>
  C1 as stated fails: \<open>mergePdfs\<close> saves with \<^verbatim>\<open>save()\<close> and no options, so a merge
  that selects no page at all, here the merge of no sources, returns a document with one
  blank page, and its page count 1 is not the sum 0 of the selection lengths.
\<close>

theorem mergePdfs_no_sources_counterexample:
  "mergePdfs example_load (pdf_save example_save) [] =
     \<lparr>mr_success = True, mr_bytes = Some [83], mr_error = None\<rparr> \<and>
   merged_document example_load [] = Inr (create\<lparr>pages := [default_page]\<rparr>) \<and>
   getPageCount (create\<lparr>pages := [default_page]\<rparr> :: nat pdf_doc) \<noteq>
     sum_list (map length ([] :: int list list))"
  by (simp add: mergePdfs_def merge_try_def merged_document_def pdf_save_def
      saved_document_defaults create_def example_save_def default_page_def getPageCount_def)

text \<open>
  C1, amended. When every source loads and every entry of every \<open>selectedPages\<close> is a
  page index of its source, and the resolved selections select at least one page, the
  document \<open>mergePdfs\<close> returns has as its pages the concatenation, in the order of the
  source list, of each source's selected pages in the order of its \<open>selectedPages\<close> (all
  pages, ascending, when that list is empty), and its page count is the sum of the
  lengths of the resolved selections. When they select no page, the document returned
  has the single blank page that \<^verbatim>\<open>save\<close> adds. The result carries the bytes the
  serialiser writes for that document.
\<close>

theorem mergePdfs_output_pages:
  assumes loads: "map (\<lambda>s. ld ignore_encryption (ms_bytes s)) sources = map Inr docs"
    and valid: "\<forall>(s, d)\<in>set (zip sources docs).
                  \<forall>i\<in>set (selectedPages s). 0 \<le> i \<and> i < int (length (pages d))"
  shows "\<exists>out.
           merged_document ld sources = Inr out \<and>
           mergePdfs ld (pdf_save wr) sources =
             (case wr save_defaults out of
                Inr b \<Rightarrow> \<lparr>mr_success = True, mr_bytes = Some b, mr_error = None\<rparr>
              | Inl e \<Rightarrow> \<lparr>mr_success = False, mr_bytes = None,
                 mr_error = Some (error_message e ''Unknown error during merge'')\<rparr>) \<and>
           (concat (map (\<lambda>(s, d). resolved_selection s d) (zip sources docs)) \<noteq> [] \<longrightarrow>
              pages out =
                concat (map (\<lambda>(s, d). map (\<lambda>i. pages d ! nat i) (resolved_selection s d))
                          (zip sources docs)) \<and>
              getPageCount out =
                sum_list (map (\<lambda>(s, d). length (resolved_selection s d)) (zip sources docs))) \<and>
           (concat (map (\<lambda>(s, d). resolved_selection s d) (zip sources docs)) = [] \<longrightarrow>
              pages out = [default_page])"
proof -
  define P where "P = concat (map (\<lambda>(s, d). map (\<lambda>i. pages d ! nat i) (resolved_selection s d))
                      (zip sources docs))"
  define R where "R = concat (map (\<lambda>(s, d). resolved_selection s d) (zip sources docs))"
  define out where "out = saved_document save_defaults (create\<lparr>pages := P\<rparr> :: 'a pdf_doc)"
  have loop: "merge_loop ld create sources = Inr (create\<lparr>pages := P\<rparr>)"
    using merge_loop_valid[where ld=ld and sources=sources and docs=docs and acc=create,
        OF loads valid]
    by (simp add: create_def P_def)
  have len: "length P =
      sum_list (map (\<lambda>(s, d). length (resolved_selection s d)) (zip sources docs))"
    by (simp add: P_def length_concat comp_def case_prod_unfold)
  have lenR: "length P = length R"
    by (simp add: P_def R_def length_concat comp_def case_prod_unfold)
  have empty: "P = [] \<longleftrightarrow> R = []"
    unfolding length_0_conv[symmetric] lenR by (rule refl)
  have doc: "merged_document ld sources = Inr out"
    by (simp add: merged_document_def loop out_def)
  have res: "mergePdfs ld (pdf_save wr) sources =
             (case wr save_defaults out of
                Inr b \<Rightarrow> \<lparr>mr_success = True, mr_bytes = Some b, mr_error = None\<rparr>
              | Inl e \<Rightarrow> \<lparr>mr_success = False, mr_bytes = None,
                 mr_error = Some (error_message e ''Unknown error during merge'')\<rparr>)"
    by (simp add: mergePdfs_pdf_save doc)
  have some: "pages out = P \<and> getPageCount out =
      sum_list (map (\<lambda>(s, d). length (resolved_selection s d)) (zip sources docs))"
    if "R \<noteq> []"
  proof -
    from that empty have "P \<noteq> []" by simp
    then have "out = create\<lparr>pages := P\<rparr>" by (simp add: out_def saved_document_defaults)
    then show ?thesis using len by (simp add: getPageCount_def)
  qed
  have none: "pages out = [default_page]" if "R = []"
  proof -
    from that empty have "P = []" by simp
    then show ?thesis by (simp add: out_def saved_document_defaults)
  qed
  from doc res some none show ?thesis
    unfolding P_def R_def by blast
qed

theorem mergePdfs_output_pages_witness:
  "mergePdfs example_load (pdf_save example_save)
       [example_source [10, 20, 30] [0, 2], example_source [40, 50] [1]] =
     \<lparr>mr_success = True, mr_bytes = Some [10, 30, 50], mr_error = None\<rparr> \<and>
   mergePdfs example_load (pdf_save example_save) [example_source [10, 20] []] =
     \<lparr>mr_success = True, mr_bytes = Some [10, 20], mr_error = None\<rparr>"
proof -
  let ?srcs = "[example_source [10, 20, 30] [0, 2], example_source [40, 50] [1]]"
  let ?docs = "[example_doc [10, 20, 30], example_doc [40, 50]]"
  have h1: "map (\<lambda>s. example_load ignore_encryption (ms_bytes s)) ?srcs = map Inr ?docs"
    by (simp add: example_load_def example_source_def)
  have h2: "\<forall>(s, d)\<in>set (zip ?srcs ?docs).
                  \<forall>i\<in>set (selectedPages s). 0 \<le> i \<and> i < int (length (pages d))"
    by (simp add: example_source_def example_doc_def)
  have ne: "concat (map (\<lambda>(s, d). resolved_selection s d) (zip ?srcs ?docs)) \<noteq> []"
    by (simp add: resolved_selection_def example_source_def)
  have P: "concat (map (\<lambda>(s, d). map (\<lambda>i. pages d ! nat i) (resolved_selection s d))
             (zip ?srcs ?docs)) = [example_page 10, example_page 30, example_page 50]"
    by (simp add: resolved_selection_def example_source_def example_doc_def)
  from mergePdfs_output_pages[where ld=example_load and wr=example_save
        and sources="?srcs" and docs="?docs", OF h1 h2]
  obtain out where res: "mergePdfs example_load (pdf_save example_save) ?srcs =
       (case example_save save_defaults out of
          Inr b \<Rightarrow> \<lparr>mr_success = True, mr_bytes = Some b, mr_error = None\<rparr>
        | Inl e \<Rightarrow> \<lparr>mr_success = False, mr_bytes = None,
           mr_error = Some (error_message e ''Unknown error during merge'')\<rparr>)"
    and pg: "concat (map (\<lambda>(s, d). resolved_selection s d) (zip ?srcs ?docs)) \<noteq> [] \<longrightarrow>
       pages out = concat (map (\<lambda>(s, d). map (\<lambda>i. pages d ! nat i) (resolved_selection s d))
             (zip ?srcs ?docs)) \<and>
       getPageCount out =
         sum_list (map (\<lambda>(s, d). length (resolved_selection s d)) (zip ?srcs ?docs))"
    by blast
  from pg ne have "pages out = concat (map (\<lambda>(s, d). map (\<lambda>i. pages d ! nat i)
             (resolved_selection s d)) (zip ?srcs ?docs))"
    by blast
  then have "pages out = [example_page 10, example_page 30, example_page 50]"
    by (simp only: P)
  then have sv: "example_save save_defaults out = Inr [10, 30, 50]"
    by (simp add: example_save_def example_page_def)
  have a: "mergePdfs example_load (pdf_save example_save) ?srcs =
     \<lparr>mr_success = True, mr_bytes = Some [10, 30, 50], mr_error = None\<rparr>"
    by (simp add: res sv)
  let ?one = "[example_source [10, 20] []]"
  let ?d1 = "[example_doc [10, 20]]"
  have g1: "map (\<lambda>s. example_load ignore_encryption (ms_bytes s)) ?one = map Inr ?d1"
    by (simp add: example_load_def example_source_def)
  have g2: "\<forall>(s, d)\<in>set (zip ?one ?d1).
                  \<forall>i\<in>set (selectedPages s). 0 \<le> i \<and> i < int (length (pages d))"
    by (simp add: example_source_def)
  have gne: "concat (map (\<lambda>(s, d). resolved_selection s d) (zip ?one ?d1)) \<noteq> []"
    by (simp add: resolved_selection_def example_source_def example_doc_def)
  have Q: "concat (map (\<lambda>(s, d). map (\<lambda>i. pages d ! nat i) (resolved_selection s d))
             (zip ?one ?d1)) = [example_page 10, example_page 20]"
    by (simp add: resolved_selection_def example_source_def example_doc_def)
  from mergePdfs_output_pages[where ld=example_load and wr=example_save
        and sources="?one" and docs="?d1", OF g1 g2]
  obtain out2 where res2: "mergePdfs example_load (pdf_save example_save) ?one =
       (case example_save save_defaults out2 of
          Inr b \<Rightarrow> \<lparr>mr_success = True, mr_bytes = Some b, mr_error = None\<rparr>
        | Inl e \<Rightarrow> \<lparr>mr_success = False, mr_bytes = None,
           mr_error = Some (error_message e ''Unknown error during merge'')\<rparr>)"
    and pg2: "concat (map (\<lambda>(s, d). resolved_selection s d) (zip ?one ?d1)) \<noteq> [] \<longrightarrow>
       pages out2 = concat (map (\<lambda>(s, d). map (\<lambda>i. pages d ! nat i) (resolved_selection s d))
             (zip ?one ?d1)) \<and>
       getPageCount out2 =
         sum_list (map (\<lambda>(s, d). length (resolved_selection s d)) (zip ?one ?d1))"
    by blast
  from pg2 gne have "pages out2 = concat (map (\<lambda>(s, d). map (\<lambda>i. pages d ! nat i)
             (resolved_selection s d)) (zip ?one ?d1))"
    by blast
  then have "pages out2 = [example_page 10, example_page 20]"
    by (simp only: Q)
  then have sv2: "example_save save_defaults out2 = Inr [10, 20]"
    by (simp add: example_save_def example_page_def)
  have b: "mergePdfs example_load (pdf_save example_save) ?one =
     \<lparr>mr_success = True, mr_bytes = Some [10, 20], mr_error = None\<rparr>"
    by (simp add: res2 sv2)
  from a b show ?thesis by simp
qed

section \<open>Deleting and extracting\<close>




section \<open>Out-of-range selections\<close>

text \<open>
  C5. If a source of a merge loads and its resolved selection has an entry that is not
  a page index of it, \<open>mergePdfs\<close> returns a failure: \<open>success\<close> false, no bytes, an
  error message. If the selection given to \<open>reorderPages\<close> or \<open>extractPages\<close> has such an
  entry, the call throws and returns no document. \<open>deletePages\<close> returns whatever
  \<open>extractPages\<close> returns on its resolved selection, so it passes a failure on as well.
\<close>

theorem out_of_range_selection_fails:
  "(s \<in> set sources \<and> ld ignore_encryption (ms_bytes s) = Inr d \<and>
      i \<in> set (pagesToCopy s d) \<and> \<not> (0 \<le> i \<and> i < int (getPageCount d)) \<longrightarrow>
      \<not> mr_success (mergePdfs ld sv sources) \<and>
      mr_bytes (mergePdfs ld sv sources) = None \<and>
      (\<exists>m. mr_error (mergePdfs ld sv sources) = Some m)) \<and>
   (ld ignore_encryption pdfBytes = Inr doc \<and>
      j \<in> set sel \<and> \<not> (0 \<le> j \<and> j < int (getPageCount doc)) \<longrightarrow>
      (\<exists>e. reorderPages ld sv pdfBytes sel = Inl e) \<and>
      (\<exists>e. extractPages ld sv pdfBytes sel = Inl e)) \<and>
   (ld ignore_encryption pdfBytes = Inr doc \<longrightarrow>
      deletePages ld sv pdfBytes D =
        extractPages ld sv pdfBytes (pagesToKeep (getPageCount doc) D))"
proof (intro conjI impI)
  assume a: "s \<in> set sources \<and> ld ignore_encryption (ms_bytes s) = Inr d \<and>
      i \<in> set (pagesToCopy s d) \<and> \<not> (0 \<le> i \<and> i < int (getPageCount d))"
  then obtain e where "merge_loop ld create sources = Inl e"
    using merge_loop_out_of_range[where ld=ld and s=s and d=d and i=i and sources=sources
        and acc=create]
    by (auto simp: getPageCount_def)
  then have r: "mergePdfs ld sv sources =
      \<lparr>mr_success = False, mr_bytes = None,
       mr_error = Some (error_message e ''Unknown error during merge'')\<rparr>"
    by (simp add: mergePdfs_def merge_try_def)
  show "\<not> mr_success (mergePdfs ld sv sources)" by (simp add: r)
  show "mr_bytes (mergePdfs ld sv sources) = None" by (simp add: r)
  show "\<exists>m. mr_error (mergePdfs ld sv sources) = Some m" by (simp add: r)
next
  assume a: "ld ignore_encryption pdfBytes = Inr doc \<and>
      j \<in> set sel \<and> \<not> (0 \<le> j \<and> j < int (getPageCount doc))"
  then have cp: "copyPages doc sel = Inl copy_failure"
    using copyPages_out_of_range[of j sel doc] by (simp add: getPageCount_def)
  show "\<exists>e. reorderPages ld sv pdfBytes sel = Inl e"
    using a cp by (simp add: reorderPages_def)
  show "\<exists>e. extractPages ld sv pdfBytes sel = Inl e"
    using a cp by (simp add: extractPages_def)
next
  assume "ld ignore_encryption pdfBytes = Inr doc"
  then show "deletePages ld sv pdfBytes D =
        extractPages ld sv pdfBytes (pagesToKeep (getPageCount doc) D)"
    by (simp add: deletePages_def)
qed

theorem out_of_range_selection_fails_witness:
  "mergePdfs example_load example_save
       [example_source [40, 50] [1], example_source [10, 20, 30] [0, 3]] =
     \<lparr>mr_success = False, mr_bytes = None, mr_error = Some ''page index out of range''\<rparr> \<and>
   reorderPages example_load example_save [10, 20, 30] [2, 0, 3] = Inl copy_failure \<and>
   extractPages example_load example_save [10, 20, 30] [2, 0, 3] = Inl copy_failure \<and>
   deletePages example_load example_save [10, 20, 30] [2, 0, 3] = Inr [20]"
proof -
  let ?s = "example_source [10, 20, 30] [0, 3]"
  let ?d = "example_doc [10, 20, 30]"
  have h1: "?s \<in> set [example_source [40, 50] [1], ?s] \<and>
      example_load ignore_encryption (ms_bytes ?s) = Inr ?d \<and>
      3 \<in> set (pagesToCopy ?s ?d) \<and> \<not> (0 \<le> (3::int) \<and> 3 < int (getPageCount ?d))"
    by (simp add: example_load_def example_source_def pagesToCopy_def getPageCount_def
        example_doc_def)
  have h2: "example_load ignore_encryption [10, 20, 30] = Inr ?d \<and>
      3 \<in> set [2, 0, 3] \<and> \<not> (0 \<le> (3::int) \<and> 3 < int (getPageCount ?d))"
    by (simp add: example_load_def getPageCount_def example_doc_def)
  show ?thesis
    using h1 h2
      out_of_range_selection_fails[where ld=example_load and sv=example_save and s="?s"
        and sources="[example_source [40, 50] [1], ?s]" and d="?d" and i=3
        and pdfBytes="[10, 20, 30]" and doc="?d" and j=3 and sel="[2, 0, 3]" and D="[2, 0, 3]"]
    by (simp add: mergePdfs_def merge_try_def pagesToCopy_def getPageCount_def
        example_load_def example_save_def example_source_def example_doc_def example_page_def
        reorderPages_def extractPages_def deletePages_def pagesToKeep_def js_index_def
        addPages_pages create_def copy_failure_def)
qed

text \<open>
  C9 as stated fails in its last part: when \<open>D\<close> covers every page, \<open>deletePages\<close>
  does not return a 0-page document; \<^verbatim>\<open>save()\<close> adds a blank page and the document
  returned has one page.
\<close>

theorem deletePages_all_pages_counterexample:
  "deletePages example_load (pdf_save example_save) [10, 20, 30] [0, 1, 2] = Inr [83] \<and>
   deleted_document example_load [10, 20, 30] [0, 1, 2] =
     Inr (create\<lparr>pages := [default_page]\<rparr>) \<and>
   getPageCount (create\<lparr>pages := [default_page]\<rparr> :: nat pdf_doc) \<noteq> 0"
  by (simp add: deletePages_pdf_save deleted_document_def extracted_document_def
      example_load_def example_doc_def getPageCount_def pagesToKeep_def
      saved_document_defaults addPages_pages create_def example_save_def default_page_def)

text \<open>
  C9, amended. \<open>deletePages\<close> on a document that loads: whatever the list \<open>D\<close> holds,
  the keep-list has only page indices of the document and is ascending, and the copy
  succeeds. When some page is not listed in \<open>D\<close>, the document returned has exactly the
  pages at the positions not listed in \<open>D\<close>, in ascending order; when \<open>D\<close> lists every
  position, it has the one blank page that \<^verbatim>\<open>save\<close> adds to a document without pages.
\<close>

theorem deletePages_keeps_unlisted_pages:
  assumes ld: "ld ignore_encryption pdfBytes = Inr doc"
  shows "(\<forall>i\<in>set (pagesToKeep (getPageCount doc) D). 0 \<le> i \<and> i < int (getPageCount doc)) \<and>
         sorted_wrt (<) (pagesToKeep (getPageCount doc) D) \<and>
         copyPages doc (pagesToKeep (getPageCount doc) D) =
           Inr (map (\<lambda>k. pages doc ! k)
                  (filter (\<lambda>k. int k \<notin> set D) [0 ..< getPageCount doc])) \<and>
         deleted_document ld pdfBytes D =
           Inr (saved_document save_defaults
             (create\<lparr>pages := map (\<lambda>k. pages doc ! k)
                 (filter (\<lambda>k. int k \<notin> set D) [0 ..< getPageCount doc])\<rparr>)) \<and>
         deletePages ld (pdf_save wr) pdfBytes D =
           wr save_defaults (saved_document save_defaults
             (create\<lparr>pages := map (\<lambda>k. pages doc ! k)
                 (filter (\<lambda>k. int k \<notin> set D) [0 ..< getPageCount doc])\<rparr>)) \<and>
         ((\<exists>k < getPageCount doc. int k \<notin> set D) \<longrightarrow>
            deleted_document ld pdfBytes D =
              Inr (create\<lparr>pages := map (\<lambda>k. pages doc ! k)
                 (filter (\<lambda>k. int k \<notin> set D) [0 ..< getPageCount doc])\<rparr>)) \<and>
         ((\<forall>k < getPageCount doc. int k \<in> set D) \<longrightarrow>
            deleted_document ld pdfBytes D = Inr (create\<lparr>pages := [default_page]\<rparr>))"
proof -
  let ?n = "length (pages doc)"
  define kept where "kept = map (\<lambda>k. pages doc ! k) (filter (\<lambda>k. int k \<notin> set D) [0 ..< ?n])"
  have rng: "\<forall>i\<in>set (pagesToKeep ?n D). 0 \<le> i \<and> i < int ?n"
    by (simp add: pagesToKeep_set)
  have cp: "copyPages doc (pagesToKeep ?n D) = Inr kept"
    using copyPages_in_range[OF rng] by (simp add: pagesToKeep_filter comp_def kept_def)
  have dd: "deleted_document ld pdfBytes D =
      Inr (saved_document save_defaults (create\<lparr>pages := kept\<rparr>))"
    using ld cp
    by (simp add: deleted_document_def extracted_document_def getPageCount_def addPages_pages
        create_def)
  have dp: "deletePages ld (pdf_save wr) pdfBytes D =
      wr save_defaults (saved_document save_defaults (create\<lparr>pages := kept\<rparr>))"
    by (simp add: deletePages_pdf_save dd)
  have some: "deleted_document ld pdfBytes D = Inr (create\<lparr>pages := kept\<rparr>)"
    if "\<exists>k < ?n. int k \<notin> set D"
  proof -
    from that have "filter (\<lambda>k. int k \<notin> set D) [0 ..< ?n] \<noteq> []"
      by (auto simp: filter_empty_conv)
    then have "kept \<noteq> []" by (simp add: kept_def)
    then show ?thesis by (simp add: dd saved_document_defaults)
  qed
  have none: "deleted_document ld pdfBytes D = Inr (create\<lparr>pages := [default_page]\<rparr>)"
    if "\<forall>k < ?n. int k \<in> set D"
  proof -
    from that have "filter (\<lambda>k. int k \<notin> set D) [0 ..< ?n] = []"
      by (simp add: filter_empty_conv)
    then have "kept = []" by (simp add: kept_def)
    then show ?thesis by (simp add: dd saved_document_defaults)
  qed
  show ?thesis
    unfolding getPageCount_def
    using rng cp dd dp some none pagesToKeep_ascending[of ?n D]
    unfolding kept_def by blast
qed

theorem deletePages_keeps_unlisted_pages_witness:
  "deletePages example_load (pdf_save example_save) [10, 20, 30] [0, 7, - 1, 2] = Inr [20] \<and>
   deleted_document example_load [10, 20, 30] [0, 7, - 1, 2] =
     Inr (create\<lparr>pages := [example_page 20]\<rparr>) \<and>
   deleted_document example_load [10, 20, 30] [2, 1, 0, 9] =
     Inr (create\<lparr>pages := [default_page]\<rparr>)"
proof -
  let ?doc = "example_doc [10, 20, 30]"
  have h: "example_load ignore_encryption [10, 20, 30] = Inr ?doc"
    by (simp add: example_load_def)
  note A = deletePages_keeps_unlisted_pages[where ld=example_load and wr=example_save
        and D="[0, 7, - 1, 2]", OF h]
  note B = deletePages_keeps_unlisted_pages[where ld=example_load and wr=example_save
        and D="[2, 1, 0, 9]", OF h]
  have kept: "map (\<lambda>k. pages ?doc ! k)
        (filter (\<lambda>k. int k \<notin> set [0, 7, - 1, 2]) [0 ..< getPageCount ?doc]) =
      [example_page 20]"
    by (simp add: getPageCount_def example_doc_def)
  have ex: "\<exists>k < getPageCount ?doc. int k \<notin> set [0, 7, - 1, 2]"
    by (rule exI[of _ 1]) (simp add: getPageCount_def example_doc_def)
  have all: "\<forall>k < getPageCount ?doc. int k \<in> set [2, 1, 0, 9]"
    by (auto simp: getPageCount_def example_doc_def less_Suc_eq)
  have d1: "deleted_document example_load [10, 20, 30] [0, 7, - 1, 2] =
      Inr (create\<lparr>pages := [example_page 20]\<rparr>)"
    using A[THEN conjunct2, THEN conjunct2, THEN conjunct2, THEN conjunct2, THEN conjunct2,
        THEN conjunct1, THEN mp, OF ex]
    by (simp only: kept)
  have d2: "deleted_document example_load [10, 20, 30] [2, 1, 0, 9] =
      Inr (create\<lparr>pages := [default_page]\<rparr>)"
    using B[THEN conjunct2, THEN conjunct2, THEN conjunct2, THEN conjunct2, THEN conjunct2,
        THEN conjunct2, THEN mp, OF all] .
  have b1: "deletePages example_load (pdf_save example_save) [10, 20, 30] [0, 7, - 1, 2] =
      Inr [20]"
    using d1 by (simp add: deletePages_pdf_save example_save_def example_page_def)
  from b1 d1 d2 show ?thesis by simp
qed

section \<open>Baking annotations\<close>

lemma length_annotate: "length (annotate h ps a) = length ps"
  by (simp add: annotate_def split: option.splits)

lemma length_annotate_all: "length (annotate_all h ps as) = length ps"
  by (induction as arbitrary: ps) (simp_all add: length_annotate)

lemma annotate_all_append:
  "annotate_all h ps (xs @ ys) = annotate_all h (annotate_all h ps xs) ys"
  by (induction xs arbitrary: ps) simp_all

lemma annotate_invalid:
  "\<not> (0 \<le> pageIndex a \<and> pageIndex a < int (length ps)) \<Longrightarrow> annotate h ps a = ps"
  by (auto simp: annotate_def js_index_def)

lemma annotate_all_filter:
  "annotate_all h ps as =
   annotate_all h ps (filter (\<lambda>a. 0 \<le> pageIndex a \<and> pageIndex a < int (length ps)) as)"
proof (induction as arbitrary: ps)
  case Nil
  then show ?case by simp
next
  case (Cons a as)
  show ?case
  proof (cases "0 \<le> pageIndex a \<and> pageIndex a < int (length ps)")
    case True
    then show ?thesis
      using Cons.IH[of "annotate h ps a"] by (simp add: length_annotate)
  next
    case False
    then have "annotate h ps a = ps" by (rule annotate_invalid)
    with False show ?thesis
      using Cons.IH[of ps] by auto
  qed
qed

text \<open>
  C3. The drawing call made for an annotation on a page \<open>p\<close> is placed with
  \<open>documentY = height p - rect.y - rect.height\<close>: the filled rectangle of a highlight,
  the line of an underline, the outline of a rectangle and the text of a text annotation
  with content are drawn at that \<open>y\<close>; the line of a strikeout is drawn half the
  rectangle's height above it. Freeform and arrow annotations, and text annotations
  without content, draw nothing. The page drawn on is the one at the annotation's
  \<open>pageIndex\<close>, so the height used is the target page's.
\<close>

theorem baked_annotation_document_y:
  "(ann_type a = Highlight \<or> ann_type a = Underline \<or> ann_type a = Rectangle \<or>
      (ann_type a = Text \<and> ann_content a \<noteq> None \<and> ann_content a \<noteq> Some []) \<longrightarrow>
      (\<exists>d. content (bake h p a) = content p @ [d] \<and>
           op_y d = height p - rect_y (ann_rect a) - rect_height (ann_rect a))) \<and>
   (ann_type a = Highlight \<longrightarrow>
      bake h p a = p\<lparr>content := content p @
        [DrawRectangle (rect_x (ann_rect a))
           (height p - rect_y (ann_rect a) - rect_height (ann_rect a))
           (rect_width (ann_rect a)) (rect_height (ann_rect a))
           (Some (h (color a))) None None (opacity a)]\<rparr>) \<and>
   (ann_type a = Strikeout \<longrightarrow>
      (\<exists>d. content (bake h p a) = content p @ [d] \<and>
           op_y d = (height p - rect_y (ann_rect a) - rect_height (ann_rect a))
                      + rect_height (ann_rect a) / 2)) \<and>
   (ann_type a = Freeform \<or> ann_type a = Arrow \<or>
      (ann_type a = Text \<and> (ann_content a = None \<or> ann_content a = Some [])) \<longrightarrow>
      bake h p a = p) \<and>
   (js_index ps (pageIndex a) = Some p \<longrightarrow>
      annotate h ps a = ps[nat (pageIndex a) := bake h p a])"
  by (cases "ann_type a")
     (auto simp: bake_def drawHighlight_def drawUnderline_def drawStrikeout_def
        drawRectangle_def drawTextAnnotation_def draw_def annotate_def Let_def
        split: option.splits)

theorem baked_annotation_document_y_witness:
  "annotate example_hex [example_page 612] (example_annotation Highlight 0) =
     [(example_page 612)\<lparr>content :=
        [DrawRectangle 10 742 100 30 (Some (RGB 1 1 0)) None None (1 / 2)]\<rparr>] \<and>
   (\<exists>d. content (bake example_hex (example_page 612) (example_annotation Strikeout 0)) = [d] \<and>
        op_y d = 757) \<and>
   bake example_hex (example_page 612) (example_annotation Arrow 0) = example_page 612"
proof -
  let ?p = "example_page 612"
  have hl: "ann_type (example_annotation Highlight 0) = Highlight"
    and st: "ann_type (example_annotation Strikeout 0) = Strikeout"
    and ar: "ann_type (example_annotation Arrow 0) = Arrow"
    and ix: "js_index [?p] (pageIndex (example_annotation Highlight 0)) = Some ?p"
    by (simp_all add: example_annotation_def js_index_def)
  note H = baked_annotation_document_y[of "example_annotation Highlight 0" example_hex ?p "[?p]"]
  note S = baked_annotation_document_y[of "example_annotation Strikeout 0" example_hex ?p "[?p]"]
  note A = baked_annotation_document_y[of "example_annotation Arrow 0" example_hex ?p "[?p]"]
  have b: "bake example_hex ?p (example_annotation Highlight 0) =
      ?p\<lparr>content := [DrawRectangle 10 742 100 30 (Some (RGB 1 1 0)) None None (1 / 2)]\<rparr>"
    using H[THEN conjunct2, THEN conjunct1, THEN mp, OF hl]
    by (simp add: example_annotation_def example_page_def example_hex_def)
  have c1: "annotate example_hex [?p] (example_annotation Highlight 0) =
      [?p\<lparr>content := [DrawRectangle 10 742 100 30 (Some (RGB 1 1 0)) None None (1 / 2)]\<rparr>]"
    using H[THEN conjunct2, THEN conjunct2, THEN conjunct2, THEN conjunct2, THEN mp, OF ix] b
    by (simp add: example_annotation_def)
  have c2: "\<exists>d. content (bake example_hex ?p (example_annotation Strikeout 0)) = [d] \<and>
        op_y d = 757"
    using S[THEN conjunct2, THEN conjunct2, THEN conjunct1, THEN mp, OF st]
    by (simp add: example_annotation_def example_page_def)
  have c3: "bake example_hex ?p (example_annotation Arrow 0) = ?p"
    using A[THEN conjunct2, THEN conjunct2, THEN conjunct2, THEN conjunct1] ar by simp
  from c1 c2 c3 show ?thesis by simp
qed

text \<open>
  C4. An annotation whose \<open>pageIndex\<close> is at least the page count is skipped: with it
  anywhere in the list, \<open>applyAnnotations\<close> returns exactly what it returns without it
  (so it throws only if it would throw without it, and the other annotations are
  applied), and the pages are the same; applied alone it leaves the loaded document
  as it is.
\<close>

theorem stray_annotation_is_skipped:
  assumes ld: "ld ignore_encryption pdfBytes = Inr doc"
    and stray: "pageIndex a \<ge> int (getPageCount doc)"
  shows "applyAnnotations ld sv h pdfBytes (before @ a # after) =
           applyAnnotations ld sv h pdfBytes (before @ after) \<and>
         annotate_all h (pages doc) (before @ a # after) =
           annotate_all h (pages doc) (before @ after) \<and>
         applyAnnotations ld sv h pdfBytes [a] = sv save_defaults doc"
proof -
  have "\<not> (0 \<le> pageIndex a \<and> pageIndex a < int (length (annotate_all h (pages doc) before)))"
    using stray by (simp add: length_annotate_all getPageCount_def)
  then have skip: "annotate h (annotate_all h (pages doc) before) a =
      annotate_all h (pages doc) before"
    by (rule annotate_invalid)
  have eq: "annotate_all h (pages doc) (before @ a # after) =
           annotate_all h (pages doc) (before @ after)"
    by (simp add: annotate_all_append skip)
  have "\<not> (0 \<le> pageIndex a \<and> pageIndex a < int (length (pages doc)))"
    using stray by (simp add: getPageCount_def)
  then have one: "annotate h (pages doc) a = pages doc" by (rule annotate_invalid)
  show ?thesis
    using ld eq one by (simp add: applyAnnotations_def)
qed

theorem stray_annotation_is_skipped_witness:
  "applyAnnotations example_load example_save example_hex [10, 20]
       [example_annotation Highlight 0, example_annotation Underline 2,
        example_annotation Rectangle 1] =
   applyAnnotations example_load example_save example_hex [10, 20]
       [example_annotation Highlight 0, example_annotation Rectangle 1] \<and>
   applyAnnotations example_load example_save example_hex [10, 20]
       [example_annotation Underline 2] = Inr [10, 20]"
proof -
  have h1: "example_load ignore_encryption [10, 20] = Inr (example_doc [10, 20])"
    by (simp add: example_load_def)
  have h2: "pageIndex (example_annotation Underline 2) \<ge> int (getPageCount (example_doc [10, 20]))"
    by (simp add: example_annotation_def getPageCount_def example_doc_def)
  have sv: "example_save save_defaults (example_doc [10, 20]) = Inr [10, 20]"
    by (simp add: example_save_def example_doc_def example_page_def)
  show ?thesis
    using stray_annotation_is_skipped[where ld=example_load and sv=example_save
        and h=example_hex and before="[example_annotation Highlight 0]"
        and after="[example_annotation Rectangle 1]", OF h1 h2] sv
    by simp
qed

text \<open>
  C10. An annotation whose \<open>pageIndex\<close> is not a page index of the loaded document,
  negative or too large, is skipped: \<open>applyAnnotations\<close> returns what it returns on the
  annotations with a valid \<open>pageIndex\<close> alone, in their order.
\<close>

theorem invalid_annotations_are_filtered:
  assumes ld: "ld ignore_encryption pdfBytes = Inr doc"
  shows "applyAnnotations ld sv h pdfBytes annotations =
         applyAnnotations ld sv h pdfBytes
           (filter (\<lambda>a. 0 \<le> pageIndex a \<and> pageIndex a < int (getPageCount doc)) annotations)"
  using ld annotate_all_filter[of h "pages doc" annotations]
  by (simp add: applyAnnotations_def getPageCount_def)

theorem invalid_annotations_are_filtered_witness:
  "applyAnnotations example_load example_save example_hex [10, 20]
       [example_annotation Highlight (- 1), example_annotation Strikeout 1,
        example_annotation Rectangle 5] =
   applyAnnotations example_load example_save example_hex [10, 20]
       [example_annotation Strikeout 1]"
proof -
  have h: "example_load ignore_encryption [10, 20] = Inr (example_doc [10, 20])"
    by (simp add: example_load_def)
  show ?thesis
    using invalid_annotations_are_filtered[where ld=example_load and sv=example_save
        and h=example_hex and annotations="[example_annotation Highlight (- 1),
          example_annotation Strikeout 1, example_annotation Rectangle 5]", OF h]
    by (simp add: getPageCount_def example_doc_def example_annotation_def)
qed

section \<open>Compression results\<close>

lemma round_half_even_ge_floor: "\<lfloor>x\<rfloor> \<le> round_half_even x"
  by (simp add: round_half_even_def Let_def)

lemma round_half_even_nonneg: "0 \<le> x \<Longrightarrow> 0 \<le> round_half_even x"
  using round_half_even_ge_floor[of x] by (simp add: order_trans[of 0 "\<lfloor>x\<rfloor>"])

lemma to_double_nonpos:
  assumes "x \<le> 0"
  shows "to_double x \<le> 0"
proof (cases "x = 0")
  case True
  then show ?thesis by (simp add: to_double_def)
next
  case False
  with assms have neg: "x < 0" by simp
  let ?e = "binade \<bar>x\<bar> - 52"
  have p: "(0::real) < 2 powi ?e" by simp
  have "0 \<le> \<bar>x\<bar> / 2 powi ?e" using p by simp
  then have "0 \<le> round_half_even (\<bar>x\<bar> / 2 powi ?e)" by (rule round_half_even_nonneg)
  then have "0 \<le> real_of_int (round_half_even (\<bar>x\<bar> / 2 powi ?e)) * 2 powi ?e"
    using p by simp
  then show ?thesis
    using neg False by (simp add: to_double_def Let_def)
qed

lemma to_double_ge_one:
  assumes "1 \<le> x"
  shows "1 \<le> to_double x"
proof -
  let ?n = "\<lfloor>x\<rfloor>"
  let ?b = "bitlen ?n - 1"
  let ?e = "?b - 52"
  have n: "0 < ?n" using assms by simp
  have b0: "0 \<le> ?b" using n by (simp add: bitlen_alt_def)
  have bin: "binade \<bar>x\<bar> = ?b" using assms by (simp add: binade_def)
  have "2 ^ nat ?b \<le> ?n" using bitlen_bounds[OF n] by simp
  then have "real_of_int (2 ^ nat ?b) \<le> real_of_int ?n" by (simp only: of_int_le_iff)
  also have "\<dots> \<le> x" by simp
  finally have lo: "(2::real) powi ?b \<le> x" using b0 by (simp add: power_int_def)
  have pe: "(0::real) < 2 powi ?e" by simp
  define P :: real where "P = 2 powi 52"
  have P: "P = real_of_int (2 ^ 52)" by (simp add: P_def power_int_def)
  have "(2::real) powi (52 + ?e) = 2 powi 52 * 2 powi ?e"
    by (rule power_int_add) simp
  moreover have "52 + ?e = ?b" by simp
  ultimately have split: "(2::real) powi ?b = P * 2 powi ?e"
    by (simp only: P_def)
  have "P \<le> x / 2 powi ?e"
    using lo pe by (simp only: split pos_le_divide_eq)
  then have "(2::int) ^ 52 \<le> \<lfloor>x / 2 powi ?e\<rfloor>" by (simp only: P le_floor_iff)
  then have "(2::int) ^ 52 \<le> round_half_even (x / 2 powi ?e)"
    using round_half_even_ge_floor[of "x / 2 powi ?e"] by linarith
  then have "P \<le> real_of_int (round_half_even (x / 2 powi ?e))"
    by (simp only: P of_int_le_iff)
  then have "P * 2 powi ?e \<le> real_of_int (round_half_even (x / 2 powi ?e)) * 2 powi ?e"
    using pe by (simp only: mult_le_cancel_right_pos)
  then have "(2::real) powi ?b \<le> real_of_int (round_half_even (x / 2 powi ?e)) * 2 powi ?e"
    by (simp only: split)
  moreover have "(1::real) \<le> 2 powi ?b" using b0 by (simp add: power_int_def)
  ultimately have "1 \<le> real_of_int (round_half_even (x / 2 powi ?e)) * 2 powi ?e" by linarith
  moreover have "to_double x = real_of_int (round_half_even (x / 2 powi ?e)) * 2 powi ?e"
    using assms bin by (simp add: to_double_def Let_def)
  ultimately show ?thesis by simp
qed

lemma js_round_nonpos: "x \<le> 0 \<Longrightarrow> js_round x \<le> 0"
  unfolding js_round_def by linarith

lemma reduction_nonneg: "reduction original compressed = Some p \<Longrightarrow> 0 \<le> p"
  by (auto simp: reduction_def split: if_splits)

lemma reduction_no_shrink:
  assumes "0 < original" "original \<le> compressed"
  shows "reduction original compressed = Some 0"
proof -
  have "1 \<le> real compressed / real original"
    using assms by (simp add: le_divide_eq)
  then have "1 \<le> to_double (real compressed / real original)"
    by (rule to_double_ge_one)
  then have "1 - to_double (real compressed / real original) \<le> 0" by simp
  then have "to_double (1 - to_double (real compressed / real original)) \<le> 0"
    by (rule to_double_nonpos)
  then have "to_double (1 - to_double (real compressed / real original)) * 100 \<le> 0"
    by (rule mult_nonpos_nonneg) simp
  then have "to_double (to_double (1 - to_double (real compressed / real original)) * 100) \<le> 0"
    by (rule to_double_nonpos)
  then have "js_round (to_double (to_double (1 - to_double (real compressed / real original)) * 100)) \<le> 0"
    by (rule js_round_nonpos)
  then show ?thesis using assms by (simp add: reduction_def)
qed

lemma reduction_40_17: "reduction 40 17 = Some 57"
  by (simp add: reduction_def to_double_def binade_def round_half_even_def js_round_def Let_def
      compute_bitlen)

lemma compressPdf_cases:
  "compressPdf ld sv api pdfBytes level =
     (case compressPdf_try ld sv api pdfBytes level of
        Inr r \<Rightarrow> Inr r
      | Inl e \<Rightarrow> Inr (compression_failure (length pdfBytes) e
                  ''Unknown error during compression''))"
  by (simp add: compressPdf_def try_catch_def split: sum.splits)

lemma compressPdf_try_success:
  "compressPdf_try ld sv api pdfBytes level = Inr r \<Longrightarrow>
   \<exists>cb. r = compression_success (length pdfBytes) cb"
  by (auto simp: compressPdf_try_def split: sum.splits)

lemma handler_cleanup_ok: "handler_cleanup env tempDir = Inr ()"
  by (simp add: handler_cleanup_def try_catch_def split: option.splits sum.splits)

lemma compress_handler_cases:
  "compress_handler env bs level =
     (case fst (handler_try env bs level) of
        Inr r \<Rightarrow> Inr r
      | Inl e \<Rightarrow> Inr (compression_failure (length bs) e
                  ''Failed to compress PDF. Make sure Ghostscript is installed.''))"
  by (simp add: compress_handler_def try_finally_def try_catch_def handler_cleanup_ok
      split: prod.splits sum.splits)

lemma handler_try_success:
  "fst (handler_try env bs level) = Inr r \<Longrightarrow> \<exists>cb. r = compression_success (length bs) cb"
  by (auto simp: handler_try_def handler_body_def Let_def split: sum.splits)

lemma error_message_nonempty:
  "e \<noteq> JsError [] \<Longrightarrow> fallback \<noteq> [] \<Longrightarrow> error_message e fallback \<noteq> []"
  by (cases e) auto

lemma successful_compression:
  assumes res: "compressPdf ld sv api bs level = Inr r \<or> compress_handler env bs level = Inr r"
    and ok: "cr_success r"
  shows "\<exists>cb. r = compression_success (length bs) cb"
  using res
proof
  assume c: "compressPdf ld sv api bs level = Inr r"
  show ?thesis
  proof (cases "compressPdf_try ld sv api bs level")
    case (Inl e)
    with c ok show ?thesis by (auto simp: compressPdf_cases compression_failure_def)
  next
    case (Inr r')
    with c have "r' = r" by (simp add: compressPdf_cases)
    with Inr show ?thesis using compressPdf_try_success by blast
  qed
next
  assume c: "compress_handler env bs level = Inr r"
  show ?thesis
  proof (cases "fst (handler_try env bs level)")
    case (Inl e)
    with c ok show ?thesis by (auto simp: compress_handler_cases compression_failure_def)
  next
    case (Inr r')
    with c have "r' = r" by (simp add: compress_handler_cases)
    with Inr show ?thesis using handler_try_success by blast
  qed
qed

text \<open>
  C6. Both compression passes always return a result and never throw. When the
  \<^verbatim>\<open>try\<close> block throws \<open>e\<close> (as it does when every process call fails, or when the
  input does not load), the result has \<open>success\<close> false, no bytes, \<open>originalSize\<close> and
  \<open>compressedSize\<close> equal to the length of the input, \<open>reductionPercent\<close> 0 and the
  message of \<open>e\<close> (a fixed text if \<open>e\<close> is not an \<^verbatim>\<open>Error\<close>), which is not empty
  unless \<open>e\<close> is an \<^verbatim>\<open>Error\<close> with an empty message. A failing removal of the scratch
  directory changes nothing.
\<close>

theorem compress_never_throws:
  "(\<exists>r. compress_handler env bs level = Inr r \<and>
      (case fst (handler_try env bs level) of
         Inr ok \<Rightarrow> r = ok \<and> cr_success r
       | Inl e \<Rightarrow>
           \<not> cr_success r \<and> cr_bytes r = None \<and>
           originalSize r = length bs \<and> compressedSize r = length bs \<and>
           reductionPercent r = Some 0 \<and>
           cr_error r = Some (error_message e
              ''Failed to compress PDF. Make sure Ghostscript is installed.'') \<and>
           (e \<noteq> JsError [] \<longrightarrow> cr_error r \<noteq> Some []))) \<and>
   (\<exists>r. compressPdf ld sv api bs level = Inr r \<and>
      (case compressPdf_try ld sv api bs level of
         Inr ok \<Rightarrow> r = ok \<and> cr_success r
       | Inl e \<Rightarrow>
           \<not> cr_success r \<and> cr_bytes r = None \<and>
           originalSize r = length bs \<and> compressedSize r = length bs \<and>
           reductionPercent r = Some 0 \<and>
           cr_error r = Some (error_message e ''Unknown error during compression'') \<and>
           (e \<noteq> JsError [] \<longrightarrow> cr_error r \<noteq> Some []))) \<and>
   ((\<forall>path args. \<exists>e. execFileAsync env path args = Inl e) \<longrightarrow>
      (\<exists>e. fst (handler_try env bs level) = Inl e)) \<and>
   ((\<exists>e. ld (compress_load_options level) bs = Inl e) \<longrightarrow>
      (\<exists>e. compressPdf_try ld sv api bs level = Inl e))"
proof (intro conjI)
  show "\<exists>r. compress_handler env bs level = Inr r \<and>
      (case fst (handler_try env bs level) of
         Inr ok \<Rightarrow> r = ok \<and> cr_success r
       | Inl e \<Rightarrow>
           \<not> cr_success r \<and> cr_bytes r = None \<and>
           originalSize r = length bs \<and> compressedSize r = length bs \<and>
           reductionPercent r = Some 0 \<and>
           cr_error r = Some (error_message e
              ''Failed to compress PDF. Make sure Ghostscript is installed.'') \<and>
           (e \<noteq> JsError [] \<longrightarrow> cr_error r \<noteq> Some []))"
  proof (cases "fst (handler_try env bs level)")
    case (Inl e)
    then show ?thesis
      using error_message_nonempty[of e
          "''Failed to compress PDF. Make sure Ghostscript is installed.''"]
      by (simp add: compress_handler_cases compression_failure_def)
  next
    case (Inr ok)
    then show ?thesis
      using handler_try_success[OF Inr]
      by (auto simp: compress_handler_cases compression_success_def)
  qed
  show "\<exists>r. compressPdf ld sv api bs level = Inr r \<and>
      (case compressPdf_try ld sv api bs level of
         Inr ok \<Rightarrow> r = ok \<and> cr_success r
       | Inl e \<Rightarrow>
           \<not> cr_success r \<and> cr_bytes r = None \<and>
           originalSize r = length bs \<and> compressedSize r = length bs \<and>
           reductionPercent r = Some 0 \<and>
           cr_error r = Some (error_message e ''Unknown error during compression'') \<and>
           (e \<noteq> JsError [] \<longrightarrow> cr_error r \<noteq> Some []))"
  proof (cases "compressPdf_try ld sv api bs level")
    case (Inl e)
    then show ?thesis
      using error_message_nonempty[of e "''Unknown error during compression''"]
      by (simp add: compressPdf_cases compression_failure_def)
  next
    case (Inr ok)
    then show ?thesis
      using compressPdf_try_success[OF Inr]
      by (auto simp: compressPdf_cases compression_success_def)
  qed
  show "(\<forall>path args. \<exists>e. execFileAsync env path args = Inl e) \<longrightarrow>
      (\<exists>e. fst (handler_try env bs level) = Inl e)"
  proof
    assume missing: "\<forall>path args. \<exists>e. execFileAsync env path args = Inl e"
    show "\<exists>e. fst (handler_try env bs level) = Inl e"
    proof (cases "mkdtemp env (path_join (tmpdir env) ''pdf-compress-'')")
      case (Inl e)
      then show ?thesis by (simp add: handler_try_def)
    next
      case (Inr tempDir)
      obtain e where "execFileAsync env (find_gs env gsPaths ''gs'')
          (gsArgs level (path_join tempDir ''input.pdf'') (path_join tempDir ''output.pdf''))
          = Inl e"
        using missing by blast
      then show ?thesis
        using Inr by (simp add: handler_try_def handler_body_def Let_def split: sum.splits)
    qed
  qed
  show "(\<exists>e. ld (compress_load_options level) bs = Inl e) \<longrightarrow>
      (\<exists>e. compressPdf_try ld sv api bs level = Inl e)"
    by (auto simp: compressPdf_try_def)
qed

theorem compress_never_throws_witness:
  "compress_handler (example_env gs_absent []) (replicate 10485760 0) 75 =
     Inr \<lparr>cr_success = False, cr_bytes = None, originalSize = 10485760,
          compressedSize = 10485760, reductionPercent = Some 0,
          cr_error = Some ''spawn gs ENOENT''\<rparr> \<and>
   compressPdf example_load example_save example_api [] 75 =
     Inr \<lparr>cr_success = False, cr_bytes = None, originalSize = 0,
          compressedSize = 0, reductionPercent = Some 0,
          cr_error = Some ''No PDF header found''\<rparr>"
proof -
  let ?env = "example_env gs_absent []"
  let ?big = "replicate 10485760 (0 :: 8 word)"
  have missing: "\<forall>path args. \<exists>e. execFileAsync ?env path args = Inl e"
    by (simp add: example_env_def gs_absent_def)
  have t1: "fst (handler_try ?env ?big 75) = Inl (JsError ''spawn gs ENOENT'')"
    by (simp add: handler_try_def handler_body_def example_env_def gs_absent_def gsPaths_def
        Let_def)
  have t2: "compressPdf_try example_load example_save example_api [] 75 =
      Inl (JsError ''No PDF header found'')"
    by (simp add: compressPdf_try_def example_load_def)
  obtain r1 where r1: "compress_handler ?env ?big 75 = Inr r1"
    "\<not> cr_success r1" "cr_bytes r1 = None" "originalSize r1 = 10485760"
    "compressedSize r1 = 10485760" "reductionPercent r1 = Some 0"
    "cr_error r1 = Some ''spawn gs ENOENT''" "cr_error r1 \<noteq> Some []"
    using compress_never_throws[of ?env ?big 75 example_load example_save example_api,
        THEN conjunct1]
    by (auto simp: t1)
  obtain r2 where r2: "compressPdf example_load example_save example_api [] 75 = Inr r2"
    "\<not> cr_success r2" "cr_bytes r2 = None" "originalSize r2 = 0"
    "compressedSize r2 = 0" "reductionPercent r2 = Some 0"
    "cr_error r2 = Some ''No PDF header found''" "cr_error r2 \<noteq> Some []"
    using compress_never_throws[of ?env "[]" 75 example_load example_save example_api,
        THEN conjunct2, THEN conjunct1]
    by (auto simp: t2)
  from r1 r2 show ?thesis by (cases r1; cases r2) simp
qed

lemma compressPdf_try_document:
  "compressPdf_try ld sv api pdfBytes level =
     (case compressPdf_document ld api pdfBytes level of
        Inl e \<Rightarrow> Inl e
      | Inr d \<Rightarrow>
          (case sv (compress_save_options level) d of
             Inl e \<Rightarrow> Inl e
           | Inr compressedBytes \<Rightarrow> Inr (compression_success (length pdfBytes) compressedBytes)))"
  by (simp add: compressPdf_try_def compressPdf_document_def split: sum.splits)

lemma pdf_load_compress:
  "parse pdfBytes = Inr doc \<Longrightarrow>
   pdf_load parse (compress_load_options level) pdfBytes =
     Inr (if level < 50 then updateInfoDict doc else doc)"
  by (simp add: pdf_load_def compress_load_options_def)

text \<open>
  C7 as stated fails. The code computes in IEEE doubles: for 40 bytes compressed to 17
  the exact value \<open>(1 - 17/40) * 100\<close> is 57.5, which rounds to 58, but the double
  computed is just below 57.5 and the result reports 57. And a successful run with an
  empty input and an empty output reports NaN, not 0.
\<close>

theorem reduction_percent_exact_counterexample:
  "compress_handler (example_env (gs_at ''/usr/bin/gs'') (replicate 17 0)) (replicate 40 0) 50 =
     Inr (compression_success 40 (replicate 17 0)) \<and>
   reductionPercent (compression_success 40 (replicate 17 0)) = Some 57 \<and>
   max 0 (round ((1 - 17 / 40) * 100 :: real)) = 58 \<and>
   compress_handler (example_env (gs_at ''/usr/bin/gs'') []) [] 50 =
     Inr (compression_success 0 []) \<and>
   reductionPercent (compression_success 0 []) = None"
proof -
  have a: "compress_handler (example_env (gs_at ''/usr/bin/gs'') (replicate 17 0))
      (replicate 40 0) 50 = Inr (compression_success 40 (replicate 17 0))"
    by (simp add: compress_handler_cases handler_try_def handler_body_def example_env_def
        gs_at_def gsPaths_def Let_def)
  have b: "reductionPercent (compression_success 40 (replicate 17 0)) = Some 57"
    by (simp add: compression_success_def reduction_40_17)
  have c: "max 0 (round ((1 - 17 / 40) * 100 :: real)) = 58"
    by (simp add: round_def)
  have d: "compress_handler (example_env (gs_at ''/usr/bin/gs'') []) [] 50 =
     Inr (compression_success 0 [])"
    by (simp add: compress_handler_cases handler_try_def handler_body_def example_env_def
        gs_at_def gsPaths_def Let_def)
  have e: "reductionPercent (compression_success 0 []) = None"
    by (simp add: compression_success_def reduction_def)
  from a b c d e show ?thesis by (intro conjI)
qed

text \<open>
  C7, amended. A successful compression never reports a negative \<open>reductionPercent\<close>.
  For a non-empty input it reports \<open>Math.round\<close> of \<open>(1 - compressedSize / originalSize)
  * 100\<close> as computed in IEEE doubles (the quotient, the difference and the product each
  rounded to the nearest double), or 0 if that is negative; so it reports 0 when the
  output is not smaller than the input.
\<close>

theorem reduction_percent_in_doubles:
  assumes res: "compressPdf ld sv api bs level = Inr r \<or> compress_handler env bs level = Inr r"
    and ok: "cr_success r"
  shows "(\<forall>p. reductionPercent r = Some p \<longrightarrow> 0 \<le> p) \<and>
         (0 < originalSize r \<longrightarrow>
            reductionPercent r =
              Some (max 0 (js_round (to_double (to_double
                (1 - to_double (real (compressedSize r) / real (originalSize r))) * 100)))) \<and>
            (originalSize r \<le> compressedSize r \<longrightarrow> reductionPercent r = Some 0))"
proof -
  obtain cb where r: "r = compression_success (length bs) cb"
    using successful_compression[OF res ok] ..
  have red: "reductionPercent r = reduction (originalSize r) (compressedSize r)"
    by (simp add: r compression_success_def)
  have a: "\<forall>p. reductionPercent r = Some p \<longrightarrow> 0 \<le> p"
    using reduction_nonneg[of "originalSize r" "compressedSize r"] by (simp add: red)
  have b: "reductionPercent r =
      Some (max 0 (js_round (to_double (to_double
        (1 - to_double (real (compressedSize r) / real (originalSize r))) * 100))))"
    if "0 < originalSize r"
    using that by (simp add: red reduction_def)
  have c: "reductionPercent r = Some 0" if "0 < originalSize r" "originalSize r \<le> compressedSize r"
    using that reduction_no_shrink[of "originalSize r" "compressedSize r"] by (simp add: red)
  from a b c show ?thesis by blast
qed

theorem reduction_percent_in_doubles_witness:
  "compress_handler (example_env (gs_at ''/usr/bin/gs'') [1]) [1, 2, 3] 50 =
     Inr (compression_success 3 [1]) \<and>
   reductionPercent (compression_success 3 [1]) = Some 67 \<and>
   compress_handler (example_env (gs_at ''/usr/bin/gs'') [1, 2, 3, 4, 5, 6]) [1, 2, 3, 4] 75 =
     Inr (compression_success 4 [1, 2, 3, 4, 5, 6]) \<and>
   reductionPercent (compression_success 4 [1, 2, 3, 4, 5, 6]) = Some 0 \<and>
   compressPdf example_load example_save example_api [7] 25 =
     Inr (compression_success 1 [7]) \<and>
   reductionPercent (compression_success 1 [7]) = Some 0"
proof -
  let ?r1 = "compression_success 3 [1]"
  let ?r2 = "compression_success 4 [1, 2, 3, 4, 5, 6]"
  let ?r3 = "compression_success 1 [7]"
  have len3: "Suc (Suc (Suc 0)) = 3" and len4: "Suc (Suc (Suc (Suc 0))) = 4" by simp_all
  have h1: "compress_handler (example_env (gs_at ''/usr/bin/gs'') [1]) [1, 2, 3] 50 = Inr ?r1"
    by (simp add: compress_handler_cases handler_try_def handler_body_def example_env_def
        gs_at_def gsPaths_def Let_def len3)
  have h2: "compress_handler (example_env (gs_at ''/usr/bin/gs'') [1, 2, 3, 4, 5, 6])
      [1, 2, 3, 4] 75 = Inr ?r2"
    by (simp add: compress_handler_cases handler_try_def handler_body_def example_env_def
        gs_at_def gsPaths_def Let_def len4)
  have h3: "compressPdf example_load example_save example_api [7] 25 = Inr ?r3"
    by (simp add: compressPdf_cases compressPdf_try_def example_load_def example_save_def
        example_doc_def example_page_def compress_prepare_def)
  have ok1: "cr_success ?r1" and pos1: "0 < originalSize ?r1"
    and ok2: "cr_success ?r2" and pos2: "0 < originalSize ?r2"
    and ns2: "originalSize ?r2 \<le> compressedSize ?r2"
    and ok3: "cr_success ?r3" and pos3: "0 < originalSize ?r3"
    and ns3: "originalSize ?r3 \<le> compressedSize ?r3"
    by (simp_all add: compression_success_def)
  have "reductionPercent ?r1 =
      Some (max 0 (js_round (to_double (to_double
        (1 - to_double (real (compressedSize ?r1) / real (originalSize ?r1))) * 100))))"
    using reduction_percent_in_doubles[where r="?r1", OF disjI2[OF h1] ok1] pos1 by blast
  also have "\<dots> = Some 67"
    by (simp add: compression_success_def to_double_def binade_def round_half_even_def
        js_round_def Let_def compute_bitlen)
  finally have c1: "reductionPercent ?r1 = Some 67" .
  have c2: "reductionPercent ?r2 = Some 0"
    using reduction_percent_in_doubles[where r="?r2", OF disjI2[OF h2] ok2] pos2 ns2 by blast
  have c3: "reductionPercent ?r3 = Some 0"
    using reduction_percent_in_doubles[where r="?r3", OF disjI1[OF h3] ok3] pos3 ns3 by blast
  from h1 h2 h3 c1 c2 c3 show ?thesis by simp
qed

text \<open>
  C8 as stated fails in its last part: at level 25 the document is loaded with
  \<^verbatim>\<open>updateMetadata: true\<close>, so the library overwrites the producer, and the document
  saved does not have the producer of the input.
\<close>

theorem compressPdf_level_25_counterexample:
  "compressPdf (pdf_load example_parse) example_save_producer example_api [1, 2, 3] 25 =
     Inr (compression_success 3 (string_bytes pdf_lib_name)) \<and>
   compressPdf_document (pdf_load example_parse) example_api [1, 2, 3] 25 =
     Inr (example_report\<lparr>producer := Some pdf_lib_name\<rparr>) \<and>
   producer example_report = Some ''Writer 7'' \<and>
   pdf_lib_name \<noteq> ''Writer 7''"
proof -
  have len3: "Suc (Suc (Suc 0)) = 3" by simp
  have d: "compressPdf_document (pdf_load example_parse) example_api [1, 2, 3] 25 =
     Inr (example_report\<lparr>producer := Some pdf_lib_name\<rparr>)"
    by (simp add: compressPdf_document_def pdf_load_def example_parse_def
        compress_load_options_def compress_prepare_def updateInfoDict_def example_report_def)
  have c: "compressPdf (pdf_load example_parse) example_save_producer example_api [1, 2, 3] 25 =
     Inr (compression_success 3 (string_bytes pdf_lib_name))"
    by (simp add: compressPdf_cases compressPdf_try_document d example_save_producer_def len3)
  have p: "producer example_report = Some ''Writer 7''"
    by (simp add: example_report_def)
  have n: "pdf_lib_name \<noteq> ''Writer 7''"
    by (simp add: pdf_lib_name_def)
  from c d p n show ?thesis by (intro conjI)
qed

text \<open>
  C8, amended. The in-process pass, for a document that parses. Whenever \<open>save\<close> returns
  bytes for the document handed to it, the pass succeeds with them, whatever the form
  calls did. At level 50 and above the title, author, subject, keywords, producer and
  creator of that document are empty. At level 75 and above, when the document has a
  form with at least one field, its pages and form are those left by \<open>flatten\<close>; when
  \<open>getForm\<close> throws or there is no field, only the metadata is stripped. Below level 75
  pages and form are untouched. Below level 50 nothing is stripped: title, author,
  subject and keywords are those of the input and so is a creator that is present, but
  the producer is the library's name, as is a creator that was absent.
\<close>

theorem in_process_pass_metadata:
  assumes parse: "parse pdfBytes = Inr doc"
  shows "\<exists>saved.
         compressPdf_document (pdf_load parse) api pdfBytes level = Inr saved \<and>
         (\<forall>b. sv (compress_save_options level) saved = Inr b \<longrightarrow>
            compressPdf (pdf_load parse) sv api pdfBytes level =
              Inr (compression_success (length pdfBytes) b)) \<and>
         (level \<ge> 50 \<longrightarrow>
            title saved = Some [] \<and> author saved = Some [] \<and> subject saved = Some [] \<and>
            doc_keywords saved = Some [] \<and> producer saved = Some [] \<and>
            creator saved = Some []) \<and>
         (level \<ge> 75 \<longrightarrow>
            (\<forall>f. getForm api (form doc) = Inr f \<and> getFields api f > 0 \<longrightarrow>
               pages saved = fst (snd (flatten api f (pages doc))) \<and>
               form saved = snd (snd (flatten api f (pages doc)))) \<and>
            ((\<exists>e. getForm api (form doc) = Inl e) \<or>
             (\<exists>f. getForm api (form doc) = Inr f \<and> getFields api f = 0) \<longrightarrow>
               saved = strip_metadata doc)) \<and>
         (level < 75 \<longrightarrow> pages saved = pages doc \<and> form saved = form doc) \<and>
         (level < 50 \<longrightarrow>
            saved = updateInfoDict doc \<and>
            title saved = title doc \<and> author saved = author doc \<and>
            subject saved = subject doc \<and> doc_keywords saved = doc_keywords doc \<and>
            producer saved = Some pdf_lib_name \<and>
            (creator doc \<noteq> None \<longrightarrow> creator saved = creator doc) \<and>
            (creator doc = None \<longrightarrow> creator saved = Some pdf_lib_name))"
proof -
  define loaded where "loaded = (if level < 50 then updateInfoDict doc else doc)"
  define saved where "saved = compress_prepare api level loaded"
  have ld: "pdf_load parse (compress_load_options level) pdfBytes = Inr loaded"
    using pdf_load_compress[where parse=parse and doc=doc, OF parse] by (simp add: loaded_def)
  have d: "compressPdf_document (pdf_load parse) api pdfBytes level = Inr saved"
    by (simp add: compressPdf_document_def ld saved_def)
  have run: "compressPdf (pdf_load parse) sv api pdfBytes level =
      Inr (compression_success (length pdfBytes) b)"
    if "sv (compress_save_options level) saved = Inr b" for b
    using that by (simp add: compressPdf_cases compressPdf_try_document d)
  have hi: "loaded = doc" if "level \<ge> 50"
    using that by (simp add: loaded_def)
  have strip: "title saved = Some [] \<and> author saved = Some [] \<and> subject saved = Some [] \<and>
      doc_keywords saved = Some [] \<and> producer saved = Some [] \<and> creator saved = Some []"
    if "level \<ge> 50"
    using that
    by (simp add: saved_def compress_prepare_def flatten_forms_def strip_metadata_def Let_def
        split: sum.splits prod.splits)
  have flat: "pages saved = fst (snd (flatten api f (pages doc))) \<and>
      form saved = snd (snd (flatten api f (pages doc)))"
    if "level \<ge> 75" "getForm api (form doc) = Inr f \<and> getFields api f > 0" for f
    using that hi
    by (simp add: saved_def compress_prepare_def flatten_forms_def strip_metadata_def Let_def
        split: prod.splits)
  have noform: "saved = strip_metadata doc"
    if "level \<ge> 75" "(\<exists>e. getForm api (form doc) = Inl e) \<or>
             (\<exists>f. getForm api (form doc) = Inr f \<and> getFields api f = 0)"
    using that hi
    by (auto simp: saved_def compress_prepare_def flatten_forms_def strip_metadata_def Let_def)
  have body: "pages saved = pages doc \<and> form saved = form doc" if "level < 75"
    using that
    by (simp add: saved_def loaded_def compress_prepare_def strip_metadata_def
        updateInfoDict_def Let_def)
  have low: "saved = updateInfoDict doc \<and>
      title saved = title doc \<and> author saved = author doc \<and>
      subject saved = subject doc \<and> doc_keywords saved = doc_keywords doc \<and>
      producer saved = Some pdf_lib_name \<and>
      (creator doc \<noteq> None \<longrightarrow> creator saved = creator doc) \<and>
      (creator doc = None \<longrightarrow> creator saved = Some pdf_lib_name)"
    if "level < 50"
    using that
    by (auto simp: saved_def loaded_def compress_prepare_def updateInfoDict_def Let_def)
  show ?thesis
  proof (intro exI[of _ saved] conjI)
    show "compressPdf_document (pdf_load parse) api pdfBytes level = Inr saved" by (rule d)
    show "\<forall>b. sv (compress_save_options level) saved = Inr b \<longrightarrow>
            compressPdf (pdf_load parse) sv api pdfBytes level =
              Inr (compression_success (length pdfBytes) b)"
      using run by blast
    show "level \<ge> 50 \<longrightarrow>
            title saved = Some [] \<and> author saved = Some [] \<and> subject saved = Some [] \<and>
            doc_keywords saved = Some [] \<and> producer saved = Some [] \<and>
            creator saved = Some []"
      using strip by blast
    show "level \<ge> 75 \<longrightarrow>
            (\<forall>f. getForm api (form doc) = Inr f \<and> getFields api f > 0 \<longrightarrow>
               pages saved = fst (snd (flatten api f (pages doc))) \<and>
               form saved = snd (snd (flatten api f (pages doc)))) \<and>
            ((\<exists>e. getForm api (form doc) = Inl e) \<or>
             (\<exists>f. getForm api (form doc) = Inr f \<and> getFields api f = 0) \<longrightarrow>
               saved = strip_metadata doc)"
      using flat noform by blast
    show "level < 75 \<longrightarrow> pages saved = pages doc \<and> form saved = form doc"
      using body by blast
    show "level < 50 \<longrightarrow>
            saved = updateInfoDict doc \<and>
            title saved = title doc \<and> author saved = author doc \<and>
            subject saved = subject doc \<and> doc_keywords saved = doc_keywords doc \<and>
            producer saved = Some pdf_lib_name \<and>
            (creator doc \<noteq> None \<longrightarrow> creator saved = creator doc) \<and>
            (creator doc = None \<longrightarrow> creator saved = Some pdf_lib_name)"
      using low by blast
  qed
qed

theorem in_process_pass_metadata_witness:
  "compressPdf (pdf_load example_parse) example_save example_api [1, 2, 3] 75 =
     Inr (compression_success 3 [200]) \<and>
   compressPdf_document (pdf_load example_parse) example_api [1, 2, 3] 75 =
     Inr \<lparr>pages = [(example_page 200)\<lparr>content := [DrawText ''field'' 0 0 12 (RGB 0 0 0) 1]\<rparr>],
          title = Some [], author = Some [], subject = Some [], doc_keywords = Some [],
          producer = Some [], creator = Some [], form = None\<rparr> \<and>
   compressPdf_document (pdf_load example_parse) example_api [1, 2, 3] 25 =
     Inr (example_report\<lparr>producer := Some pdf_lib_name\<rparr>)"
proof -
  have h: "example_parse [1, 2, 3] = Inr example_report"
    by (simp add: example_parse_def)
  have len3: "Suc (Suc (Suc 0)) = 3" by simp
  from in_process_pass_metadata[where parse=example_parse and api=example_api and level=75
      and sv=example_save, OF h]
  obtain s75 where d75: "compressPdf_document (pdf_load example_parse) example_api [1, 2, 3] 75 =
      Inr s75"
    and run: "\<forall>b. example_save (compress_save_options 75) s75 = Inr b \<longrightarrow>
        compressPdf (pdf_load example_parse) example_save example_api [1, 2, 3] 75 =
          Inr (compression_success (length [1, 2, 3 :: 8 word]) b)"
    and meta: "(75::nat) \<ge> 50 \<longrightarrow>
        title s75 = Some [] \<and> author s75 = Some [] \<and> subject s75 = Some [] \<and>
        doc_keywords s75 = Some [] \<and> producer s75 = Some [] \<and> creator s75 = Some []"
    and flat: "(75::nat) \<ge> 75 \<longrightarrow>
        (\<forall>f. getForm example_api (form example_report) = Inr f \<and> getFields example_api f > 0 \<longrightarrow>
           pages s75 = fst (snd (flatten example_api f (pages example_report))) \<and>
           form s75 = snd (snd (flatten example_api f (pages example_report)))) \<and>
        ((\<exists>e. getForm example_api (form example_report) = Inl e) \<or>
         (\<exists>f. getForm example_api (form example_report) = Inr f \<and> getFields example_api f = 0) \<longrightarrow>
           s75 = strip_metadata example_report)"
    by (elim exE conjE) (rule that; assumption)
  have fm: "getForm example_api (form example_report) = Inr 2 \<and> getFields example_api 2 > 0"
    by (simp add: example_api_def example_report_def)
  from flat fm have pf: "pages s75 = fst (snd (flatten example_api 2 (pages example_report)))"
    "form s75 = snd (snd (flatten example_api 2 (pages example_report)))"
    by simp_all
  have pg: "pages s75 =
      [(example_page 200)\<lparr>content := [DrawText ''field'' 0 0 12 (RGB 0 0 0) 1]\<rparr>]"
    and fo: "form s75 = None"
    using pf by (simp_all add: example_api_def example_report_def example_page_def)
  from meta have m: "title s75 = Some []" "author s75 = Some []" "subject s75 = Some []"
    "doc_keywords s75 = Some []" "producer s75 = Some []" "creator s75 = Some []"
    by simp_all
  have s75: "s75 =
      \<lparr>pages = [(example_page 200)\<lparr>content := [DrawText ''field'' 0 0 12 (RGB 0 0 0) 1]\<rparr>],
       title = Some [], author = Some [], subject = Some [], doc_keywords = Some [],
       producer = Some [], creator = Some [], form = None\<rparr>"
    using pg fo m by (cases s75) simp
  have saved: "example_save (compress_save_options 75) s75 = Inr [200]"
    by (simp add: example_save_def pg example_page_def)
  have a: "compressPdf (pdf_load example_parse) example_save example_api [1, 2, 3] 75 =
     Inr (compression_success 3 [200])"
    using run saved by (simp add: len3)
  from in_process_pass_metadata[where parse=example_parse and api=example_api and level=25
      and sv=example_save, OF h]
  obtain s25 where d25: "compressPdf_document (pdf_load example_parse) example_api [1, 2, 3] 25 =
      Inr s25"
    and low: "(25::nat) < 50 \<longrightarrow> s25 = updateInfoDict example_report \<and>
            title s25 = title example_report \<and> author s25 = author example_report \<and>
            subject s25 = subject example_report \<and>
            doc_keywords s25 = doc_keywords example_report \<and>
            producer s25 = Some pdf_lib_name \<and>
            (creator example_report \<noteq> None \<longrightarrow> creator s25 = creator example_report) \<and>
            (creator example_report = None \<longrightarrow> creator s25 = Some pdf_lib_name)"
    by (elim exE conjE) (rule that; assumption)
  from low have "s25 = updateInfoDict example_report" by simp
  then have s25: "s25 = example_report\<lparr>producer := Some pdf_lib_name\<rparr>"
    by (simp add: updateInfoDict_def example_report_def)
  from a d75 s75 d25 s25 show ?thesis by simp
qed

end
